theory Spec2Isabelle
  imports Main "HOL-Library.Sublist" "HOL-Library.Char_ord"
begin

section \<open>Python strings\<close>

text \<open>
  A Python \<open>str\<close> is modelled as a \<^typ>\<open>string\<close> whose characters are the code points
  below 256. The character predicates below are those of Python on that range.
\<close>

definition is_space :: "char \<Rightarrow> bool" where
  \<comment> \<open>\<open>str.isspace\<close>, also the class \<open>\s\<close> of \<open>re\<close> and the set removed by \<open>strip()\<close> and
      \<open>split()\<close>: code points 9-13, 28-32, 133 and 160.\<close>
  "is_space c = (let n = (of_char c :: nat)
     in (9 \<le> n \<and> n \<le> 13) \<or> (28 \<le> n \<and> n \<le> 32) \<or> n = 133 \<or> n = 160)"

definition is_decimal :: "char \<Rightarrow> bool" where
  \<comment> \<open>the class \<open>\d\<close> of \<open>re\<close>\<close>
  "is_decimal c = (CHR ''0'' \<le> c \<and> c \<le> CHR ''9'')"

definition isdigit :: "char \<Rightarrow> bool" where
  \<comment> \<open>\<open>str.isdigit\<close>: the decimal digits and the superscripts 178, 179 and 185\<close>
  "isdigit c = (is_decimal c \<or> (let n = (of_char c :: nat) in n = 178 \<or> n = 179 \<or> n = 185))"

definition is_alpha :: "char \<Rightarrow> bool" where
  \<comment> \<open>the class \<open>[a-zA-Z]\<close>\<close>
  "is_alpha c = ((CHR ''a'' \<le> c \<and> c \<le> CHR ''z'') \<or> (CHR ''A'' \<le> c \<and> c \<le> CHR ''Z''))"

definition lower_char :: "char \<Rightarrow> char" where
  \<comment> \<open>\<open>str.lower\<close> on one code point below 256\<close>
  "lower_char c = (let n = (of_char c :: nat)
     in if (65 \<le> n \<and> n \<le> 90) \<or> (192 \<le> n \<and> n \<le> 222 \<and> n \<noteq> 215) then char_of (n + 32) else c)"

definition lower :: "string \<Rightarrow> string" where
  "lower s = map lower_char s"

definition strip :: "string \<Rightarrow> string" where
  \<comment> \<open>\<open>s.strip()\<close>\<close>
  "strip s = rev (dropWhile is_space (rev (dropWhile is_space s)))"

fun split_acc :: "string \<Rightarrow> string \<Rightarrow> string list" where
  "split_acc w [] = (if w = [] then [] else [rev w])"
| "split_acc w (c # cs) =
     (if is_space c then (if w = [] then split_acc [] cs else rev w # split_acc [] cs)
      else split_acc (c # w) cs)"

definition split_ws :: "string \<Rightarrow> string list" where
  \<comment> \<open>\<open>s.split()\<close>: the maximal runs of characters that are not whitespace\<close>
  "split_ws s = split_acc [] s"

fun join :: "string \<Rightarrow> string list \<Rightarrow> string" where
  \<comment> \<open>\<open>sep.join(parts)\<close>\<close>
  "join sep [] = []"
| "join sep [p] = p"
| "join sep (p # q # ps) = p @ sep @ join sep (q # ps)"

fun py_in :: "string \<Rightarrow> string \<Rightarrow> bool" where
  \<comment> \<open>\<open>x in s\<close> on strings: \<open>x\<close> occurs in \<open>s\<close> as a contiguous block\<close>
  "py_in x [] = (x = [])"
| "py_in x (c # cs) = (prefix x (c # cs) \<or> py_in x cs)"

fun remove_all :: "string \<Rightarrow> string \<Rightarrow> string" where
  \<comment> \<open>\<open>s.replace(old, '')\<close> for a non-empty \<open>old\<close>: every occurrence, left to right\<close>
  "remove_all old [] = []"
| "remove_all old (c # cs) =
     (if old \<noteq> [] \<and> prefix old (c # cs) then remove_all old (drop (length old - 1) cs)
      else c # remove_all old cs)"

definition before_char :: "char \<Rightarrow> string \<Rightarrow> string" where
  \<comment> \<open>\<open>s.split(c)[0]\<close>\<close>
  "before_char c s = takeWhile (\<lambda>x. x \<noteq> c) s"

section \<open>Regular expressions\<close>

text \<open>
  Both patterns of the source are sequences of quantified character classes, so that is the
  fragment of \<open>re\<close> modelled: a piece matches between \<open>at_least\<close> and \<open>at_most\<close> characters of its
  class, greedily, giving characters back one at a time when the rest of the pattern fails.
\<close>

datatype piece = Piece (cls: "char \<Rightarrow> bool") (at_least: nat) (at_most: "nat option")

fun greedy :: "(string \<Rightarrow> nat option) \<Rightarrow> nat \<Rightarrow> nat \<Rightarrow> string \<Rightarrow> nat option" where
  \<comment> \<open>try to take \<open>n\<close> characters, then \<open>n - 1\<close>, down to \<open>least\<close>; \<open>k\<close> matches the rest\<close>
  "greedy k least 0 s = (if least = 0 then k s else None)"
| "greedy k least (Suc n) s =
     (if Suc n < least then None
      else case k (drop (Suc n) s) of
             Some m \<Rightarrow> Some (Suc n + m)
           | None \<Rightarrow> greedy k least n s)"

definition run_length :: "piece \<Rightarrow> string \<Rightarrow> nat" where
  \<comment> \<open>the most characters the piece can take at the start of \<open>s\<close>\<close>
  "run_length p s = (let n = length (takeWhile (cls p) s)
     in case at_most p of None \<Rightarrow> n | Some h \<Rightarrow> min n h)"

primrec match_pieces :: "piece list \<Rightarrow> string \<Rightarrow> nat option" where
  \<comment> \<open>the length of the match of the pattern at the start of the string\<close>
  "match_pieces [] = (\<lambda>s. Some 0)"
| "match_pieces (p # ps) = (\<lambda>s. greedy (match_pieces ps) (at_least p) (run_length p s) s)"

fun scan :: "piece list \<Rightarrow> nat \<Rightarrow> string \<Rightarrow> string list" where
  \<comment> \<open>the leftmost matches, not overlapping; \<open>skip\<close> characters belong to the last match\<close>
  "scan ps skip [] = []"
| "scan ps (Suc k) (c # cs) = scan ps k cs"
| "scan ps 0 (c # cs) =
     (case match_pieces ps (c # cs) of
        None \<Rightarrow> scan ps 0 cs
      | Some n \<Rightarrow> take n (c # cs) # scan ps (n - 1) cs)"

definition findall :: "piece list \<Rightarrow> string \<Rightarrow> string list" where
  \<comment> \<open>\<open>re.findall(pattern, s)\<close> for a pattern without groups that matches no empty string\<close>
  "findall ps s = scan ps 0 s"

definition search :: "piece list \<Rightarrow> string \<Rightarrow> string option" where
  \<comment> \<open>\<open>re.search(pattern, s)\<close>, with \<open>group(0)\<close> of the match\<close>
  "search ps s = (case findall ps s of [] \<Rightarrow> None | m # _ \<Rightarrow> Some m)"

definition one :: "(char \<Rightarrow> bool) \<Rightarrow> piece" where
  "one c = Piece c 1 (Some 1)"

definition opt :: "(char \<Rightarrow> bool) \<Rightarrow> piece" where
  "opt c = Piece c 0 (Some 1)"

definition local_char :: "char \<Rightarrow> bool" where
  \<comment> \<open>\<open>[a-zA-Z0-9._%+-]\<close>\<close>
  "local_char c = (is_alpha c \<or> is_decimal c \<or> c \<in> set ''._%+-'')"

definition domain_char :: "char \<Rightarrow> bool" where
  \<comment> \<open>\<open>[a-zA-Z0-9.-]\<close>\<close>
  "domain_char c = (is_alpha c \<or> is_decimal c \<or> c \<in> set ''.-'')"

definition email_pattern :: "piece list" where
  \<comment> \<open>\<open>[a-zA-Z0-9._%+-]+@[a-zA-Z0-9.-]+\.[a-zA-Z]{2,}\<close>\<close>
  "email_pattern =
     [Piece local_char 1 None, one (\<lambda>c. c = CHR ''@''), Piece domain_char 1 None,
      one (\<lambda>c. c = CHR ''.''), Piece is_alpha 2 None]"

definition phone_pattern :: "piece list" where
  \<comment> \<open>\<open>\(?\d{3}\)?[-.\s]?\d{3}[-.\s]?\d{4}\<close>\<close>
  "phone_pattern =
     [opt (\<lambda>c. c = CHR ''(''), Piece is_decimal 3 (Some 3), opt (\<lambda>c. c = CHR '')''),
      opt (\<lambda>c. c \<in> set ''-.'' \<or> is_space c), Piece is_decimal 3 (Some 3),
      opt (\<lambda>c. c \<in> set ''-.'' \<or> is_space c), Piece is_decimal 4 (Some 4)]"

section \<open>The browser\<close>

text \<open>
  Every call into Selenium either returns or raises. The exceptions are values; all of them
  are subclasses of Python's \<open>Exception\<close>. An interrupt from the keyboard is not modelled.
\<close>

datatype exn = NoSuchElementException | TimeoutException | WebDriverException
  | AttributeError | TypeError | Exception string

type_synonym 'a res = "exn + 'a"

datatype strategy = ID | NAME | CSS_SELECTOR | XPATH

record element =
  el_text :: "string res"  \<comment> \<open>\<open>element.text\<close>\<close>
  el_href :: "string option res"  \<comment> \<open>\<open>element.get_attribute('href')\<close>\<close>
  el_class :: "string option res"  \<comment> \<open>\<open>element.get_attribute('class')\<close>\<close>
  el_key :: nat  \<comment> \<open>which element of the page it is\<close>

record listing =
  scroll_into_view :: "unit res"  \<comment> \<open>the \<open>scrollIntoView\<close> script on the listing\<close>
  find_element :: "string \<Rightarrow> element res"  \<comment> \<open>\<open>listing.find_element(By.CSS_SELECTOR, sel)\<close>\<close>
  find_elements :: "string \<Rightarrow> element list res"  \<comment> \<open>\<open>listing.find_elements(By.CSS_SELECTOR, sel)\<close>\<close>
  inner_html :: "string option res"  \<comment> \<open>the inner markup of the listing, read with \<open>get_attribute\<close>\<close>

record listing_record =
  Business_Name :: string
  Phone_Number :: string

section \<open>Listing collector: the fields of one listing\<close>

definition name_selectors :: "string list" where
  "name_selectors = [''a.business-name'', ''.business-name'', ''h2.n a'', ''.info-section h2 a'',
     ''[class*='' @ [CHR 0x27] @ ''business-name'' @ [CHR 0x27] @ '']'', ''.info h2 a'']"

definition then_looked :: "string \<Rightarrow> string list \<times> 'a \<Rightarrow> string list \<times> 'a" where
  "then_looked sel r = (sel # fst r, snd r)"

fun name_loop :: "listing \<Rightarrow> string \<Rightarrow> string list \<Rightarrow> string list \<times> string res" where
  \<comment> \<open>the loop over \<open>name_selectors\<close>; \<open>cur\<close> is the variable \<open>business_name\<close>. The
      first component lists the selectors looked up, in the order of the lookups.\<close>
  "name_loop l cur [] = ([], Inr cur)"
| "name_loop l cur (sel # sels) =
     (case find_element l sel of
        Inl e \<Rightarrow>
          if e = NoSuchElementException then then_looked sel (name_loop l cur sels)
          else ([sel], Inl e)
      | Inr name_element \<Rightarrow>
          (case el_text name_element of
             Inl e \<Rightarrow>
               if e = NoSuchElementException then then_looked sel (name_loop l cur sels)
               else ([sel], Inl e)
           | Inr t \<Rightarrow>
               if strip t \<noteq> [] then ([sel], Inr (strip t))
               else then_looked sel (name_loop l (strip t) sels)))"

definition extract_name :: "listing \<Rightarrow> string res" where
  "extract_name l = snd (name_loop l ''Unknown'' name_selectors)"

definition phone_selectors :: "string list" where
  "phone_selectors = [''.phones.phone.primary'', ''.phone.primary'', ''.phones'', ''div.phone'',
     ''[class*='' @ [CHR 0x27] @ ''phone primary'' @ [CHR 0x27] @ '']'', ''.info-secondary .phone'']"

definition looks_like_phone :: "string \<Rightarrow> bool" where
  \<comment> \<open>\<open>phone_text and (phone_text[0].isdigit() or phone_text.startswith('('))\<close>\<close>
  "looks_like_phone t = (case t of [] \<Rightarrow> False | c # _ \<Rightarrow> isdigit c \<or> c = CHR ''('')"

fun phone_elements_loop :: "element list \<Rightarrow> string option res" where
  \<comment> \<open>the loop over the elements of one selector; \<open>Inl\<close> when a call raises\<close>
  "phone_elements_loop [] = Inr None"
| "phone_elements_loop (phone_el # els) =
     (case el_text phone_el of
        Inl e \<Rightarrow> Inl e
      | Inr t \<Rightarrow>
          (let phone_text = join '' '' (split_ws (strip t))
           in if looks_like_phone phone_text then Inr (Some phone_text)
              else phone_elements_loop els))"

fun phone_method1 :: "listing \<Rightarrow> string list \<Rightarrow> string option" where
  \<comment> \<open>Method 1, the loop over \<open>phone_selectors\<close>; the bare \<open>except\<close> goes on with the next one\<close>
  "phone_method1 l [] = None"
| "phone_method1 l (sel # sels) =
     (case find_elements l sel of
        Inl e \<Rightarrow> phone_method1 l sels
      | Inr els \<Rightarrow>
          (case phone_elements_loop els of
             Inr (Some p) \<Rightarrow> Some p
           | _ \<Rightarrow> phone_method1 l sels))"

definition tel_selector :: string where
  "tel_selector = ''a[href^='' @ [CHR 0x27] @ ''tel:'' @ [CHR 0x27] @ '']''"

definition tel_candidate :: "element \<Rightarrow> string res" where
  \<comment> \<open>the visible text of a telephone link or, when that is empty, its target without
      \<open>tel:\<close> and \<open>+1\<close>; a missing \<open>href\<close> makes \<open>href.replace\<close> raise\<close>
  "tel_candidate phone_link =
     (case el_text phone_link of
        Inl e \<Rightarrow> Inl e
      | Inr t \<Rightarrow>
          if strip t \<noteq> [] then Inr (strip t)
          else (case el_href phone_link of
                  Inl e \<Rightarrow> Inl e
                | Inr None \<Rightarrow> Inl AttributeError
                | Inr (Some href) \<Rightarrow> Inr (strip (remove_all ''+1'' (remove_all ''tel:'' href)))))"

fun phone_links_loop :: "element list \<Rightarrow> string option res" where
  "phone_links_loop [] = Inr None"
| "phone_links_loop (phone_link # links) =
     (case tel_candidate phone_link of
        Inl e \<Rightarrow> Inl e
      | Inr phone_text \<Rightarrow>
          if phone_text \<noteq> [] \<and> length phone_text \<ge> 10 then Inr (Some phone_text)
          else phone_links_loop links)"

definition phone_method2 :: "listing \<Rightarrow> string option" where
  \<comment> \<open>Method 2; the bare \<open>except\<close> gives the method up\<close>
  "phone_method2 l =
     (case find_elements l tel_selector of
        Inl e \<Rightarrow> None
      | Inr phone_links \<Rightarrow>
          (case phone_links_loop phone_links of Inr (Some p) \<Rightarrow> Some p | _ \<Rightarrow> None))"

definition phone_method3 :: "listing \<Rightarrow> string option" where
  \<comment> \<open>Method 3: the first match of the pattern in the listing's markup\<close>
  "phone_method3 l =
     (case inner_html l of
        Inr (Some listing_html) \<Rightarrow>
          (case findall phone_pattern listing_html of [] \<Rightarrow> None | m # _ \<Rightarrow> Some m)
      | _ \<Rightarrow> None)"

definition extract_phone :: "listing \<Rightarrow> string" where
  "extract_phone l =
     (case phone_method1 l phone_selectors of
        Some p \<Rightarrow> p
      | None \<Rightarrow>
          (case phone_method2 l of
             Some p \<Rightarrow> p
           | None \<Rightarrow> (case phone_method3 l of Some p \<Rightarrow> p | None \<Rightarrow> ''Not Available'')))"

definition listing_body :: "listing \<Rightarrow> listing_record list \<Rightarrow> listing_record list res" where
  \<comment> \<open>the body of the \<open>try\<close> for one listing: \<open>Inl\<close> when an exception leaves it\<close>
  "listing_body l results =
     (case scroll_into_view l of
        Inl e \<Rightarrow> Inl e
      | Inr _ \<Rightarrow>
          (case extract_name l of
             Inl e \<Rightarrow> Inl e
           | Inr name \<Rightarrow>
               if name = ''Unknown'' then Inr results
               else (let phone = extract_phone l
                     in if name \<noteq> ''Unknown''
                        then Inr (results @ [\<lparr>Business_Name = name, Phone_Number = phone\<rparr>])
                        else Inr results)))"

definition process_listing :: "listing \<Rightarrow> listing_record list \<Rightarrow> listing_record list" where
  \<comment> \<open>one turn of the loop over the listings: \<open>except Exception: continue\<close>\<close>
  "process_listing l results =
     (case listing_body l results of Inl e \<Rightarrow> results | Inr results' \<Rightarrow> results')"

section \<open>Listing collector: the walk over the result pages\<close>

text \<open>
  The browser is a state of any type \<open>'w\<close>, read and changed through the calls below;
  reading the fields of a listing leaves it as it is. Printing, sleeping and the progress
  save of \<open>YP_scraper.py\<close> (which only reads \<open>results\<close>) are left out.
\<close>

record 'w driver =
  find_listings :: "'w \<Rightarrow> string \<Rightarrow> listing list res"
    \<comment> \<open>\<open>driver.find_elements(By.CSS_SELECTOR, selector)\<close> for the listing containers\<close>
  find_buttons :: "'w \<Rightarrow> string \<Rightarrow> element list res"
    \<comment> \<open>\<open>driver.find_elements(By.CSS_SELECTOR, next_sel)\<close>\<close>
  click :: "'w \<Rightarrow> element \<Rightarrow> 'w \<times> exn option"
    \<comment> \<open>the \<open>scrollIntoView\<close> and \<open>click\<close> scripts on a button: the browser afterwards,
        and the exception if one of them raised\<close>
  current_url :: "'w \<Rightarrow> string"

definition listing_selectors :: "string list" where
  "listing_selectors = [''.srp-listing'', ''.result'', ''.search-results .result'', ''.organic'',
     ''[class*='' @ [CHR 0x27] @ ''srp-listing'' @ [CHR 0x27] @ '']'',
     ''[class*='' @ [CHR 0x27] @ ''result-item'' @ [CHR 0x27] @ '']'']"

definition next_button_selectors :: "string list" where
  "next_button_selectors = [''a.next'', ''a[rel='' @ [CHR 0x27] @ ''next'' @ [CHR 0x27] @ '']'',
     ''.pagination a.next'', ''a[aria-label='' @ [CHR 0x27] @ ''Next'' @ [CHR 0x27] @ '']'',
     ''.next a'']"

fun locate_listings :: "'w driver \<Rightarrow> 'w \<Rightarrow> string list \<Rightarrow> listing list" where
  \<comment> \<open>the loop over \<open>listing_selectors\<close>: the first list that is not empty\<close>
  "locate_listings d w [] = []"
| "locate_listings d w (selector # sels) =
     (case find_listings d w selector of
        Inl e \<Rightarrow> locate_listings d w sels
      | Inr listings \<Rightarrow> if listings \<noteq> [] then listings else locate_listings d w sels)"

definition reached :: "int option \<Rightarrow> int \<Rightarrow> bool" where
  \<comment> \<open>\<open>limit and n >= limit\<close>: \<open>None\<close> and \<open>0\<close> are false in Python\<close>
  "reached limit n = (case limit of None \<Rightarrow> False | Some m \<Rightarrow> m \<noteq> 0 \<and> n \<ge> m)"

fun process_page ::
  "int option \<Rightarrow> listing list \<Rightarrow> listing_record list \<Rightarrow> listing_record list \<times> bool" where
  \<comment> \<open>the loop over the listings of one page; \<open>True\<close> when \<open>max_results\<close> made it return\<close>
  "process_page max_results [] results = (results, False)"
| "process_page max_results (l # ls) results =
     (if reached max_results (int (length results)) then (results, True)
      else process_page max_results ls (process_listing l results))"

definition is_disabled :: "string option \<Rightarrow> bool" where
  \<comment> \<open>\<open>'disabled' in (next_button.get_attribute('class') or '').lower()\<close>\<close>
  "is_disabled c = py_in ''disabled'' (lower (case c of None \<Rightarrow> [] | Some s \<Rightarrow> s))"

fun try_buttons :: "'w driver \<Rightarrow> 'w \<Rightarrow> element list \<Rightarrow> 'w \<times> bool res" where
  \<comment> \<open>the loop over the buttons of one selector: \<open>Inr True\<close> when a click changed the URL,
      \<open>Inr False\<close> when the loop ended or met a disabled button, \<open>Inl\<close> when a call raised\<close>
  "try_buttons d w [] = (w, Inr False)"
| "try_buttons d w (next_button # bs) =
     (case el_class next_button of
        Inl e \<Rightarrow> (w, Inl e)
      | Inr button_class \<Rightarrow>
          if is_disabled button_class then (w, Inr False)
          else (case click d w next_button of
                  (w', Some e) \<Rightarrow> (w', Inl e)
                | (w', None) \<Rightarrow>
                    if current_url d w' \<noteq> current_url d w then (w', Inr True)
                    else try_buttons d w' bs))"

fun next_page :: "'w driver \<Rightarrow> 'w \<Rightarrow> string list \<Rightarrow> 'w \<times> bool" where
  \<comment> \<open>the loop over \<open>next_button_selectors\<close>; the flag is \<open>next_button_found\<close>\<close>
  "next_page d w [] = (w, False)"
| "next_page d w (next_sel # sels) =
     (case find_buttons d w next_sel of
        Inl e \<Rightarrow> next_page d w sels
      | Inr next_buttons \<Rightarrow>
          (case try_buttons d w next_buttons of
             (w', Inr True) \<Rightarrow> (w', True)
           | (w', _) \<Rightarrow> next_page d w' sels))"

fun walk ::
  "nat \<Rightarrow> 'w driver \<Rightarrow> int option \<Rightarrow> int option \<Rightarrow> 'w \<Rightarrow> int \<Rightarrow> listing_record list
   \<Rightarrow> (listing_record list \<times> int \<times> 'w) option" where
  \<comment> \<open>the \<open>while True\<close> loop, with fuel for the number of turns: the results, the final
      \<open>current_page\<close> and the browser as the loop leaves it, or \<open>None\<close> when the fuel runs out\<close>
  "walk 0 d max_results max_pages w current_page results = None"
| "walk (Suc fuel) d max_results max_pages w current_page results =
     (let listings = locate_listings d w listing_selectors
      in if listings = [] then Some (results, current_page, w)
         else (case process_page max_results listings results of
                 (results', True) \<Rightarrow> Some (results', current_page, w)
               | (results', False) \<Rightarrow>
                   if reached max_pages current_page then Some (results', current_page, w)
                   else (case next_page d w next_button_selectors of
                           (w', True) \<Rightarrow>
                             walk fuel d max_results max_pages w' (current_page + 1) results'
                         | (w', False) \<Rightarrow> Some (results', current_page, w'))))"

definition returned :: "(listing_record list \<times> int \<times> 'w) option \<Rightarrow> (listing_record list \<times> int) option" where
  \<comment> \<open>what the caller gets: the results, here with the number of the last page\<close>
  "returned r = (case r of None \<Rightarrow> None | Some (results, current_page, w) \<Rightarrow> Some (results, current_page))"

definition extract_listings ::
  "nat \<Rightarrow> 'w driver \<Rightarrow> int option \<Rightarrow> int option \<Rightarrow> 'w \<Rightarrow> (listing_record list \<times> int) option" where
  \<comment> \<open>\<open>YellowPagesScraper.extract_listings\<close> of \<open>YP_scraper.py\<close>\<close>
  "extract_listings fuel d max_results max_pages w =
     returned (walk fuel d max_results max_pages w 1 [])"

definition extract_listings_unified ::
  "nat \<Rightarrow> 'w driver \<Rightarrow> 'w \<Rightarrow> (listing_record list \<times> int) option" where
  \<comment> \<open>\<open>extract_listings\<close> of \<open>unified_scraper.py\<close>: the same code, without the two limits\<close>
  "extract_listings_unified fuel d w = returned (walk fuel d None None w 1 [])"

section \<open>Listing collector: the search form\<close>











section \<open>Contact enricher: search and scan\<close>

record google_page =
  open_search :: "unit res"  \<comment> \<open>\<open>driver.get("https://www.google.com/search")\<close>\<close>
  input_clickable :: "strategy \<times> string \<Rightarrow> unit res"
    \<comment> \<open>\<open>wait.until(EC.element_to_be_clickable((by, selector)))\<close>\<close>
  submit_query :: "strategy \<times> string \<Rightarrow> unit res"
    \<comment> \<open>\<open>click\<close>, \<open>clear\<close>, \<open>send_keys(search_query)\<close> and \<open>submit\<close> on the input found\<close>
  wait_links :: "unit res"
    \<comment> \<open>\<open>wait.until(EC.presence_of_all_elements_located(...))\<close>\<close>
  result_links :: "element list res"
    \<comment> \<open>\<open>driver.find_elements(By.CSS_SELECTOR, "a[href*='facebook.com']")\<close>\<close>

record profile_page =
  load_page :: "unit res"  \<comment> \<open>\<open>driver.get(facebook_url)\<close>\<close>
  find_all :: "strategy \<times> string \<Rightarrow> element list res"  \<comment> \<open>\<open>driver.find_elements(by, selector)\<close>\<close>
  page_source :: "string res"  \<comment> \<open>\<open>driver.page_source\<close>\<close>

record web =
  google :: "string \<Rightarrow> google_page"  \<comment> \<open>what the browser meets when it searches a query\<close>
  facebook :: "string \<Rightarrow> profile_page"  \<comment> \<open>what the browser meets at a URL\<close>

definition search_selectors :: "(strategy \<times> string) list" where
  "search_selectors = [(NAME, ''q''), (ID, ''APjFqb''),
     (CSS_SELECTOR, ''input[type='' @ [CHR 0x27] @ ''text'' @ [CHR 0x27] @ '']'')]"

fun find_search_input :: "google_page \<Rightarrow> (strategy \<times> string) list \<Rightarrow> (strategy \<times> string) option res" where
  "find_search_input g [] = Inr None"
| "find_search_input g (loc # locs) =
     (case input_clickable g loc of
        Inr _ \<Rightarrow> Inr (Some loc)
      | Inl e \<Rightarrow> if e = TimeoutException then find_search_input g locs else Inl e)"

definition clean_url :: "string \<Rightarrow> string" where
  \<comment> \<open>\<open>href.split('&')[0].split('?')[0]\<close>\<close>
  "clean_url href = before_char CHR ''?'' (before_char CHR ''&'' href)"

definition interaction_link :: "string \<Rightarrow> bool" where
  \<comment> \<open>\<open>any(x in href for x in ['share', 'comment', 'like', 'watch', 'video'])\<close>\<close>
  "interaction_link href =
     list_ex (\<lambda>x. py_in x href) [''share'', ''comment'', ''like'', ''watch'', ''video'']"

fun scan_links :: "element list \<Rightarrow> string option res" where
  \<comment> \<open>the loop over the result links: \<open>Inr (Some url)\<close> when it returns a page URL\<close>
  "scan_links [] = Inr None"
| "scan_links (link # links) =
     (case el_href link of
        Inl e \<Rightarrow> Inl e
      | Inr None \<Rightarrow> scan_links links
      | Inr (Some href) \<Rightarrow>
          if href \<noteq> [] \<and> py_in ''facebook.com'' href then
            if interaction_link href then scan_links links
            else if py_in ''facebook.com/'' href then
              (let facebook_url = clean_url href
               in if py_in ''facebook.com/pages'' facebook_url \<or> py_in ''facebook.com/pg'' facebook_url
                  then Inr (Some facebook_url)
                  else if count_list facebook_url CHR ''/'' \<ge> 3 then Inr (Some facebook_url)
                  else scan_links links)
            else scan_links links
          else scan_links links)"

definition first_link :: "element list \<Rightarrow> string option res" where
  \<comment> \<open>after the loop: the first link seen, when it has a target\<close>
  "first_link links =
     (case links of
        [] \<Rightarrow> Inr None
      | link # _ \<Rightarrow>
          (case el_href link of
             Inl e \<Rightarrow> Inl e
           | Inr None \<Rightarrow> Inr None
           | Inr (Some href) \<Rightarrow> if href \<noteq> [] then Inr (Some (clean_url href)) else Inr None))"

definition links_block :: "google_page \<Rightarrow> string option res" where
  \<comment> \<open>the body of the inner \<open>try\<close> of \<open>search_google\<close>\<close>
  "links_block g =
     (case wait_links g of
        Inl e \<Rightarrow> Inl e
      | Inr _ \<Rightarrow>
          (case result_links g of
             Inl e \<Rightarrow> Inl e
           | Inr facebook_links \<Rightarrow>
               (case scan_links facebook_links of
                  Inl e \<Rightarrow> Inl e
                | Inr (Some url) \<Rightarrow> Inr (Some url)
                | Inr None \<Rightarrow> first_link facebook_links)))"

definition google_body :: "google_page \<Rightarrow> string option res" where
  \<comment> \<open>the body of the outer \<open>try\<close> of \<open>search_google\<close>\<close>
  "google_body g =
     (case open_search g of
        Inl e \<Rightarrow> Inl e
      | Inr _ \<Rightarrow>
          (case find_search_input g search_selectors of
             Inl e \<Rightarrow> Inl e
           | Inr None \<Rightarrow> Inr None
           | Inr (Some search_input) \<Rightarrow>
               (case submit_query g search_input of
                  Inl e \<Rightarrow> Inl e
                | Inr _ \<Rightarrow>
                    (case links_block g of
                       Inl e \<Rightarrow> if e = TimeoutException then Inr None else Inl e
                     | Inr r \<Rightarrow> Inr r))))"

definition search_query :: "string \<Rightarrow> string" where
  "search_query business_name = [CHR 0x22] @ business_name @ [CHR 0x22] @ '' facebook''"

definition search_google :: "web \<Rightarrow> string \<Rightarrow> string option" where
  \<comment> \<open>\<open>except Exception: return None\<close>\<close>
  "search_google w business_name =
     (case google_body (google w (search_query business_name)) of Inl e \<Rightarrow> None | Inr r \<Rightarrow> r)"

definition email_selectors :: "(strategy \<times> string) list" where
  "email_selectors =
     [(XPATH, ''//*[contains(text(), '' @ [CHR 0x27] @ ''@'' @ [CHR 0x27] @ '')]''),
      (CSS_SELECTOR, ''span[data-field='' @ [CHR 0x27] @ ''email'' @ [CHR 0x27] @ '']''),
      (CSS_SELECTOR, ''[data-field='' @ [CHR 0x27] @ ''email'' @ [CHR 0x27] @ '']''),
      (XPATH, ''//span[contains(., '' @ [CHR 0x27] @ ''@'' @ [CHR 0x27] @ '')]''),
      (CSS_SELECTOR, ''div[role='' @ [CHR 0x27] @ ''main'' @ [CHR 0x27] @ ''] a[href*='' @ [CHR 0x27] @ ''mailto:'' @ [CHR 0x27] @ '']''),
      (XPATH, ''//a[contains(@href, '' @ [CHR 0x27] @ ''mailto:'' @ [CHR 0x27] @ '')]'')]"

definition extract_email_regex :: "string \<Rightarrow> string option" where
  \<comment> \<open>\<open>_extract_email_regex\<close>: the first match of the email pattern in a text\<close>
  "extract_email_regex text = search email_pattern text"

fun email_elements_loop :: "element list \<Rightarrow> string option res" where
  \<comment> \<open>the loop over the elements of one selector: \<open>Inr (Some email)\<close> when it returns\<close>
  "email_elements_loop [] = Inr None"
| "email_elements_loop (el # els) =
     (case el_text el of
        Inl e \<Rightarrow> Inl e
      | Inr t \<Rightarrow>
          (case (if CHR ''@'' \<in> set (strip t) then extract_email_regex (strip t) else None) of
             Some email \<Rightarrow> Inr (Some email)
           | None \<Rightarrow>
               (case el_href el of
                  Inl e \<Rightarrow> Inl e
                | Inr h \<Rightarrow>
                    (let href = (case h of None \<Rightarrow> [] | Some x \<Rightarrow> x)
                     in if py_in ''mailto:'' href then
                          (let email = strip (before_char CHR ''?'' (remove_all ''mailto:'' href))
                           in if email \<noteq> [] \<and> CHR ''@'' \<in> set email then Inr (Some email)
                              else email_elements_loop els)
                        else email_elements_loop els))))"

fun email_selectors_loop :: "profile_page \<Rightarrow> (strategy \<times> string) list \<Rightarrow> string option" where
  \<comment> \<open>the loop over \<open>email_selectors\<close>; the bare \<open>except\<close> goes on with the next one\<close>
  "email_selectors_loop p [] = None"
| "email_selectors_loop p (loc # locs) =
     (case find_all p loc of
        Inl e \<Rightarrow> email_selectors_loop p locs
      | Inr elements \<Rightarrow>
          (case email_elements_loop elements of
             Inr (Some email) \<Rightarrow> Some email
           | _ \<Rightarrow> email_selectors_loop p locs))"

definition blocked_terms :: "string list" where
  "blocked_terms = [''facebook.com'', ''support@'', ''noreply'', ''no-reply'', ''notification'']"

definition valid_emails :: "string list \<Rightarrow> string list" where
  \<comment> \<open>\<open>[e for e in emails if not any(x in e for x in [...])]\<close>\<close>
  "valid_emails emails = filter (\<lambda>e. \<not> list_ex (\<lambda>x. py_in x e) blocked_terms) emails"

definition regex_fallback :: "string \<Rightarrow> string" where
  \<comment> \<open>the scan of the page source that ends \<open>extract_email_from_facebook\<close>\<close>
  "regex_fallback page_html =
     (let emails = findall email_pattern page_html
      in if emails \<noteq> [] then
           (case valid_emails emails of e # _ \<Rightarrow> e | [] \<Rightarrow> ''NaN'')
         else ''NaN'')"

definition normalize_url :: "string \<Rightarrow> string" where
  "normalize_url facebook_url =
     (if prefix ''http'' facebook_url then facebook_url else ''https://'' @ facebook_url)"

definition email_body :: "web \<Rightarrow> string \<Rightarrow> string res" where
  \<comment> \<open>the body of the \<open>try\<close> of \<open>extract_email_from_facebook\<close>\<close>
  "email_body w facebook_url =
     (let p = facebook w (normalize_url facebook_url)
      in case load_page p of
           Inl e \<Rightarrow> Inl e
         | Inr _ \<Rightarrow>
             (case email_selectors_loop p email_selectors of
                Some email \<Rightarrow> Inr email
              | None \<Rightarrow>
                  (case page_source p of
                     Inl e \<Rightarrow> Inl e
                   | Inr page_html \<Rightarrow> Inr (regex_fallback page_html))))"

definition extract_email_from_facebook :: "web \<Rightarrow> string \<Rightarrow> string" where
  \<comment> \<open>\<open>except Exception: return "NaN"\<close>\<close>
  "extract_email_from_facebook w facebook_url =
     (case email_body w facebook_url of Inl e \<Rightarrow> ''NaN'' | Inr email \<Rightarrow> email)"

section \<open>Contact enricher: the batch driver\<close>

text \<open>
  The Excel file is a table of cells with the columns that the collector writes and, once
  enriched, the column \<open>Email\<close>. The data frame is such a table too: \<open>Empty\<close> is the empty
  cell of the file and the missing value (NaN) of the frame. What \<open>pandas\<close> does is not in
  the repository, so the four behaviours of it that the driver depends on are parameters.
  What the driver does to the outside is kept as a trace of its calls: the searches, the
  visits of profile pages, and the calls of \<open>to_excel\<close> with the table they write. Whether a
  write succeeds is not modelled, and neither is the handler of an interrupt from the keyboard.
\<close>

datatype cell = Empty | Text string | Number int

record row =
  name_cell :: cell  \<comment> \<open>column \<open>Business Name\<close>\<close>
  phone_cell :: cell  \<comment> \<open>column \<open>Phone Number\<close>\<close>
  email_cell :: cell  \<comment> \<open>column \<open>Email\<close>, when the table has it\<close>

record table =
  columns :: "string list"
  rows :: "row list"

record pandas =
  na_marker :: "string \<Rightarrow> bool"
    \<comment> \<open>the text is one that \<open>read_excel\<close> takes for a missing value (\<open>NaN\<close>, \<open>NA\<close>, ...)\<close>
  as_number :: "string \<Rightarrow> int option"
    \<comment> \<open>the number that the type inference of \<open>read_excel\<close> reads from a text, if any\<close>
  show_number :: "int \<Rightarrow> string"
    \<comment> \<open>\<open>str\<close> of a number\<close>
  strict_setitem :: bool
    \<comment> \<open>setting a string into a numeric column raises \<open>TypeError\<close> (pandas 3) instead of
        turning the column into one of objects\<close>

definition sanitize :: "pandas \<Rightarrow> cell \<Rightarrow> cell" where
  \<comment> \<open>a marker of a missing value is read as missing\<close>
  "sanitize pd c = (case c of Text s \<Rightarrow> if na_marker pd s then Empty else Text s | _ \<Rightarrow> c)"

definition numeric :: "pandas \<Rightarrow> cell \<Rightarrow> bool" where
  "numeric pd c = (case c of Text s \<Rightarrow> as_number pd s \<noteq> None | _ \<Rightarrow> True)"

definition to_number :: "pandas \<Rightarrow> cell \<Rightarrow> cell" where
  "to_number pd c =
     (case c of Text s \<Rightarrow> (case as_number pd s of Some n \<Rightarrow> Number n | None \<Rightarrow> Text s) | _ \<Rightarrow> c)"

definition read_column :: "pandas \<Rightarrow> cell list \<Rightarrow> cell list \<times> bool" where
  \<comment> \<open>the type inference of \<open>read_excel\<close> on one column: when every value that is not
      missing is a number or reads as one, the column becomes numeric (the flag), otherwise it
      stays a column of objects\<close>
  "read_column pd cs =
     (let vs = map (sanitize pd) cs
      in if vs \<noteq> [] \<and> list_all (numeric pd) vs then (map (to_number pd) vs, True)
         else (vs, False))"

definition read_excel :: "pandas \<Rightarrow> table \<Rightarrow> table \<times> bool" where
  \<comment> \<open>\<open>pd.read_excel(excel_path)\<close> with its defaults: the frame, and whether the column
      \<open>Email\<close> came out numeric\<close>
  "read_excel pd f =
     (let ns = fst (read_column pd (map name_cell (rows f)));
          ps = fst (read_column pd (map phone_cell (rows f)));
          es = read_column pd (map email_cell (rows f))
      in (\<lparr>columns = columns f,
           rows = map (\<lambda>(n, p, e). \<lparr>name_cell = n, phone_cell = p, email_cell = e\<rparr>)
                      (zip ns (zip ps (fst es)))\<rparr>,
          snd es))"

definition py_str :: "pandas \<Rightarrow> cell \<Rightarrow> string" where
  \<comment> \<open>\<open>str\<close> of a value of the frame, as the f-strings apply it\<close>
  "py_str pd c = (case c of Empty \<Rightarrow> ''nan'' | Text s \<Rightarrow> s | Number n \<Rightarrow> show_number pd n)"

datatype event =
    Search string  \<comment> \<open>a call of \<open>search_google\<close>\<close>
  | Visit string  \<comment> \<open>a call of \<open>extract_email_from_facebook\<close>\<close>
  | Save table  \<comment> \<open>a call of \<open>df.to_excel(excel_path, ...)\<close>, with the table it writes\<close>

record enricher =
  df :: table
  email_float :: bool  \<comment> \<open>the column \<open>Email\<close> of \<open>df\<close> is numeric\<close>
  events :: "event list"
  raised :: "exn option"  \<comment> \<open>the exception that has left \<open>process_excel_file\<close>, if one has\<close>

definition has_email :: "row \<Rightarrow> bool" where
  \<comment> \<open>\<open>pd.notna(row['Email']) and row['Email'] != "NaN"\<close>\<close>
  "has_email r = (case email_cell r of Empty \<Rightarrow> False | Text s \<Rightarrow> s \<noteq> ''NaN'' | Number n \<Rightarrow> True)"

definition with_email :: "nat \<Rightarrow> string \<Rightarrow> table \<Rightarrow> table" where
  \<comment> \<open>the table with the email of the row \<open>idx\<close> replaced\<close>
  "with_email idx v t = t\<lparr>rows := (rows t)[idx := (rows t ! idx)\<lparr>email_cell := Text v\<rparr>]\<rparr>"

definition set_email :: "pandas \<Rightarrow> nat \<Rightarrow> string \<Rightarrow> enricher \<Rightarrow> enricher" where
  \<comment> \<open>\<open>df.at[idx, 'Email'] = v\<close>, for an \<open>idx\<close> of the table; no handler encloses it\<close>
  "set_email pd idx v st =
     (if email_float st \<and> strict_setitem pd then st\<lparr>raised := Some TypeError\<rparr>
      else st\<lparr>df := with_email idx v (df st), email_float := False\<rparr>)"

definition record_event :: "event \<Rightarrow> enricher \<Rightarrow> enricher" where
  "record_event ev st = st\<lparr>events := events st @ [ev]\<rparr>"

definition lookup_email :: "pandas \<Rightarrow> web \<Rightarrow> nat \<Rightarrow> cell \<Rightarrow> enricher \<Rightarrow> enricher" where
  \<comment> \<open>the search and the scan for the row \<open>idx\<close>, and the assignment of its cell\<close>
  "lookup_email pd w idx business_name st =
     (let st1 = record_event (Search (py_str pd business_name)) st
      in case search_google w (py_str pd business_name) of
           None \<Rightarrow> set_email pd idx ''NaN'' st1
         | Some facebook_url \<Rightarrow>
             if facebook_url = [] then set_email pd idx ''NaN'' st1
             else (let st2 = record_event (Visit facebook_url) st1;
                       email = extract_email_from_facebook w facebook_url
                   in if email \<noteq> ''NaN'' then set_email pd idx email st2
                      else set_email pd idx ''NaN'' st2))"

definition auto_save :: "nat \<Rightarrow> enricher \<Rightarrow> enricher" where
  \<comment> \<open>\<open>if (idx + 1) % 10 == 0: df.to_excel(...)\<close>\<close>
  "auto_save idx st = (if (idx + 1) mod 10 = 0 then record_event (Save (df st)) st else st)"

fun enrich_loop :: "pandas \<Rightarrow> web \<Rightarrow> nat \<Rightarrow> row list \<Rightarrow> enricher \<Rightarrow> enricher" where
  \<comment> \<open>\<open>for idx, row in df.iterrows()\<close>, from row \<open>idx\<close> on; an exception ends it\<close>
  "enrich_loop pd w idx [] st = st"
| "enrich_loop pd w idx (r # rs) st =
     (if has_email r then enrich_loop pd w (idx + 1) rs st
      else (let st' = lookup_email pd w idx (name_cell r) st
            in if raised st' \<noteq> None then st'
               else enrich_loop pd w (idx + 1) rs (auto_save idx st')))"

definition sliceable :: "row \<Rightarrow> bool" where
  \<comment> \<open>\<open>row['Business Name'][:40]\<close> returns: the name is a string\<close>
  "sliceable r = (case name_cell r of Text s \<Rightarrow> True | _ \<Rightarrow> False)"

definition preview :: "table \<Rightarrow> exn option" where
  \<comment> \<open>the two previews after the final save, of \<open>df.head()\<close> and, for more than ten rows, of
      \<open>df.tail()\<close>: slicing a name that is not a string raises\<close>
  "preview t =
     (if \<not> list_all sliceable (take 5 (rows t)) then Some TypeError
      else if length (rows t) > 10 \<and> \<not> list_all sliceable (drop (length (rows t) - 5) (rows t))
      then Some TypeError
      else None)"

definition process_excel_file :: "pandas \<Rightarrow> web \<Rightarrow> table option \<Rightarrow> enricher option" where
  \<comment> \<open>\<open>process_excel_file\<close> of \<open>facebook.py\<close> and \<open>process_excel_for_emails\<close> of
      \<open>unified_scraper.py\<close>. The argument is the file, \<open>None\<close> when it is missing or
      \<open>read_excel\<close> raises; the result is \<open>None\<close> when the function returns before its loop,
      and otherwise the frame at the end, the calls made and the exception that left it.\<close>
  "process_excel_file pd w file =
     (case file of
        None \<Rightarrow> None
      | Some f \<Rightarrow>
          (let loaded = read_excel pd f
           in if ''Business Name'' \<notin> set (columns (fst loaded)) then None
              else (let st0 = (if ''Email'' \<notin> set (columns (fst loaded))
                               then \<lparr>df = \<lparr>columns = columns (fst loaded) @ [''Email''],
                                            rows = map (\<lambda>r. r\<lparr>email_cell := Text ''NaN''\<rparr>)
                                                       (rows (fst loaded))\<rparr>,
                                      email_float = False, events = [], raised = None\<rparr>
                               else \<lparr>df = fst loaded, email_float = snd loaded,
                                      events = [], raised = None\<rparr>);
                        st = enrich_loop pd w 0 (rows (df st0)) st0
                    in if raised st \<noteq> None then Some st
                       else Some ((record_event (Save (df st)) st)\<lparr>raised := preview (df st)\<rparr>))))"

section \<open>Vocabulary of the properties and example inputs\<close>

definition contains_blocked :: "string \<Rightarrow> bool" where
  \<comment> \<open>one of the blocked terms occurs somewhere in the address\<close>
  "contains_blocked e = (\<exists>x\<in>set blocked_terms. sublist x e)"

definition spec_non_contact :: "string \<Rightarrow> bool" where
  \<comment> \<open>the filter in the specification's words: an address on the platform's own domain, or
      one that begins with \<open>support\<close>, \<open>noreply\<close>, \<open>no-reply\<close> or \<open>notification\<close>\<close>
  "spec_non_contact e =
     (suffix ''@facebook.com'' e \<or> suffix ''.facebook.com'' e \<or> prefix ''support'' e
      \<or> prefix ''noreply'' e \<or> prefix ''no-reply'' e \<or> prefix ''notification'' e)"

definition example_markup :: string where
  "example_markup =
     ''<p>info@example.org</p><a>support@facebook.com</a><span>support@facebook.com</span>''"

definition yields :: "listing \<Rightarrow> string \<Rightarrow> string option" where
  \<comment> \<open>the trimmed text that a candidate selector yields in a listing, when it is not empty\<close>
  "yields l sel =
     (case find_element l sel of
        Inl e \<Rightarrow> None
      | Inr el \<Rightarrow>
          (case el_text el of
             Inl e \<Rightarrow> None
           | Inr t \<Rightarrow> if strip t = [] then None else Some (strip t)))"

definition absent :: "listing \<Rightarrow> string \<Rightarrow> bool" where
  \<comment> \<open>the candidate fails: no element matches it\<close>
  "absent l sel = (find_element l sel = Inl NoSuchElementException)"

definition quiet :: "listing \<Rightarrow> string \<Rightarrow> bool" where
  \<comment> \<open>looking the candidate up raises nothing but \<open>NoSuchElementException\<close>\<close>
  "quiet l sel =
     (case find_element l sel of
        Inl e \<Rightarrow> e = NoSuchElementException
      | Inr el \<Rightarrow> (case el_text el of Inl e \<Rightarrow> e = NoSuchElementException | Inr t \<Rightarrow> True))"

definition plain_element :: "string \<Rightarrow> element" where
  "plain_element t = \<lparr>el_text = Inr t, el_href = Inr None, el_class = Inr None, el_key = 0\<rparr>"

definition link_element :: "string \<Rightarrow> string \<Rightarrow> element" where
  "link_element t href = \<lparr>el_text = Inr t, el_href = Inr (Some href), el_class = Inr None, el_key = 0\<rparr>"

definition blank_name_listing :: listing where
  "blank_name_listing =
     \<lparr>scroll_into_view = Inr (),
      find_element = (\<lambda>sel. if sel = ''a.business-name'' then Inr (plain_element ''   '')
                             else Inl NoSuchElementException),
      find_elements = (\<lambda>sel. Inr []),
      inner_html = Inr (Some ''<a class=business-name>   </a>'')\<rparr>"

definition acme_listing :: listing where
  "acme_listing =
     \<lparr>scroll_into_view = Inr (),
      find_element = (\<lambda>sel. if sel = ''.business-name'' then Inr (plain_element '' Acme Plumbing '')
                             else if sel = ''h2.n a'' then Inr (plain_element ''Acme Plumbing Inc'')
                             else Inl NoSuchElementException),
      find_elements = (\<lambda>sel. if sel = tel_selector then Inr [link_element [] ''tel:+12135550100'']
                              else Inr []),
      inner_html = Inr (Some ''<h2 class=n><a>Acme Plumbing Inc</a></h2>'')\<rparr>"

definition unknown_listing :: listing where
  "unknown_listing =
     \<lparr>scroll_into_view = Inr (),
      find_element = (\<lambda>sel. if sel = ''a.business-name'' then Inr (plain_element '' Unknown '')
                             else Inl NoSuchElementException),
      find_elements = (\<lambda>sel. Inr []),
      inner_html = Inr (Some ''<a class=business-name> Unknown </a> (213) 555-0100'')\<rparr>"

definition nameless_listing :: listing where
  "nameless_listing =
     \<lparr>scroll_into_view = Inr (),
      find_element = (\<lambda>sel. Inl NoSuchElementException),
      find_elements = (\<lambda>sel. Inr []),
      inner_html = Inr (Some ''(213) 555-0100'')\<rparr>"


definition short_tel_listing :: listing where
  "short_tel_listing =
     \<lparr>scroll_into_view = Inr (),
      find_element = (\<lambda>sel. Inr (plain_element ''Corner Cafe'')),
      find_elements = (\<lambda>sel. if sel = tel_selector
                              then Inr [link_element ''555-0100'' ''tel:5550100'', link_element [] ''tel:+1555010'']
                              else Inr []),
      inner_html = Inr (Some ''<a href=tel:5550100>555-0100</a> or 213.555.0100'')\<rparr>"

definition single_page :: "listing list \<Rightarrow> unit driver" where
  "single_page ls =
     \<lparr>find_listings = (\<lambda>w sel. if sel = ''.srp-listing'' then Inr ls else Inr []),
      find_buttons = (\<lambda>w sel. Inr []),
      click = (\<lambda>w b. (w, None)),
      current_url = (\<lambda>w. ''https://www.yellowpages.com/search'')\<rparr>"

definition dead_google :: google_page where
  "dead_google =
     \<lparr>open_search = Inl WebDriverException,
      input_clickable = (\<lambda>loc. Inl TimeoutException),
      submit_query = (\<lambda>loc. Inl WebDriverException),
      wait_links = Inl TimeoutException,
      result_links = Inr []\<rparr>"

definition found_google :: "string \<Rightarrow> google_page" where
  "found_google url =
     \<lparr>open_search = Inr (),
      input_clickable = (\<lambda>loc. Inr ()),
      submit_query = (\<lambda>loc. Inr ()),
      wait_links = Inr (),
      result_links = Inr [link_element ''Acme Plumbing - Home'' url]\<rparr>"

definition dead_profile :: profile_page where
  "dead_profile =
     \<lparr>load_page = Inl WebDriverException, find_all = (\<lambda>loc. Inr []), page_source = Inr []\<rparr>"

definition markup_profile :: "string \<Rightarrow> profile_page" where
  "markup_profile html =
     \<lparr>load_page = Inr (), find_all = (\<lambda>loc. Inr []), page_source = Inr html\<rparr>"

definition offline_web :: web where
  "offline_web = \<lparr>google = (\<lambda>q. dead_google), facebook = (\<lambda>url. dead_profile)\<rparr>"


definition helpful_web :: web where
  "helpful_web =
     \<lparr>google = (\<lambda>q. found_google ''https://www.facebook.com/acmeplumbing/?ref=search''),
      facebook = (\<lambda>url. markup_profile example_markup)\<rparr>"




definition empty_anchor_listing :: listing where
  \<comment> \<open>a link of class \<open>business-name\<close> with no text: the three selectors on that class
      match it, the others match nothing\<close>
  "empty_anchor_listing =
     \<lparr>scroll_into_view = Inr (),
      find_element = (\<lambda>sel. if sel \<in> set [''a.business-name'', ''.business-name'',
                                             ''[class*='' @ [CHR 0x27] @ ''business-name'' @ [CHR 0x27] @ '']'']
                             then Inr (plain_element [])
                             else Inl NoSuchElementException),
      find_elements = (\<lambda>sel. Inr []),
      inner_html = Inr (Some ''<a class=business-name></a>'')\<rparr>"

definition default_na_values :: "string list" where
  \<comment> \<open>the texts that \<open>read_excel\<close> documents as missing values by default\<close>
  "default_na_values =
     [[], ''#N/A'', ''#N/A N/A'', ''#NA'', ''-1.#IND'', ''-1.#QNAN'', ''-NaN'', ''-nan'', ''1.#IND'',
      ''1.#QNAN'', ''<NA>'', ''N/A'', ''NA'', ''NULL'', ''NaN'', ''None'', ''n/a'', ''nan'', ''null'']"

fun digits_value :: "int \<Rightarrow> string \<Rightarrow> int" where
  "digits_value n [] = n"
| "digits_value n (c # cs) = digits_value (10 * n + (int (of_char c) - 48)) cs"

definition digits_only :: "string \<Rightarrow> int option" where
  \<comment> \<open>a text of decimal digits read as a number\<close>
  "digits_only s = (if s \<noteq> [] \<and> list_all is_decimal s then Some (digits_value 0 s) else None)"

fun show_digits :: "nat \<Rightarrow> nat \<Rightarrow> string" where
  \<comment> \<open>the decimal digits of a number, at most \<open>k\<close> of them\<close>
  "show_digits 0 n = []"
| "show_digits (Suc k) n =
     (if n < 10 then [char_of (48 + n)] else show_digits k (n div 10) @ [char_of (48 + n mod 10)])"

definition show_int :: "int \<Rightarrow> string" where
  \<comment> \<open>\<open>str\<close> of an integer of at most twenty digits\<close>
  "show_int i = (if i < 0 then ''-'' @ show_digits 20 (nat (- i)) else show_digits 20 (nat i))"

definition pandas_like :: "bool \<Rightarrow> pandas" where
  \<comment> \<open>an instance of the parameters that does what pandas does on the tables below: texts
      of digits are numbers, the documented markers are missing values\<close>
  "pandas_like strict =
     \<lparr>na_marker = (\<lambda>s. s \<in> set default_na_values), as_number = digits_only,
      show_number = show_int, strict_setitem = strict\<rparr>"

definition plain_row :: "string \<Rightarrow> string \<Rightarrow> cell \<Rightarrow> row" where
  "plain_row n p e = \<lparr>name_cell = Text n, phone_cell = Text p, email_cell = e\<rparr>"

definition collected_columns :: "string list" where
  "collected_columns = [''Business Name'', ''Phone Number'']"

definition enriched_columns :: "string list" where
  "enriched_columns = [''Business Name'', ''Phone Number'', ''Email'']"

definition collected_file :: "nat \<Rightarrow> table" where
  \<comment> \<open>a file as the collector writes it, of \<open>n\<close> rows\<close>
  "collected_file n =
     \<lparr>columns = collected_columns,
      rows = replicate n (plain_row ''Acme Plumbing'' ''Not Available'' Empty)\<rparr>"

definition done_file :: table where
  \<comment> \<open>every row has an email\<close>
  "done_file =
     \<lparr>columns = enriched_columns,
      rows = [plain_row ''Acme Plumbing'' ''(213) 555-0100'' (Text ''info@acme.example''),
              plain_row ''Corner Cafe'' ''Not Available'' (Text ''hello@cafe.example'')]\<rparr>"

definition digits_file :: table where
  \<comment> \<open>every row has an email; the phones are texts of digits, as telephone links give them\<close>
  "digits_file =
     \<lparr>columns = enriched_columns,
      rows = [plain_row ''Acme Plumbing'' ''2135550100'' (Text ''info@acme.example''),
              plain_row ''NA'' ''3105550123'' (Text ''hello@na.example'')]\<rparr>"


definition resumed_file :: table where
  \<comment> \<open>twenty rows; the tenth and the twentieth already have an email\<close>
  "resumed_file =
     \<lparr>columns = enriched_columns,
      rows = replicate 9 (plain_row ''Acme Plumbing'' ''Not Available'' Empty)
           @ [plain_row ''Corner Cafe'' ''Not Available'' (Text ''hello@cafe.example'')]
           @ replicate 9 (plain_row ''Acme Plumbing'' ''Not Available'' Empty)
           @ [plain_row ''Corner Cafe'' ''Not Available'' (Text ''hello@cafe.example'')]\<rparr>"

fun save_points :: "nat \<Rightarrow> event list \<Rightarrow> nat list" where
  \<comment> \<open>for each save of a trace, the number of searches made before it, counting from \<open>c\<close>\<close>
  "save_points c [] = []"
| "save_points c (Search n # evs) = save_points (c + 1) evs"
| "save_points c (Visit u # evs) = save_points c evs"
| "save_points c (Save t # evs) = c # save_points c evs"

definition save_points_of :: "enricher option \<Rightarrow> nat list" where
  \<comment> \<open>for each save of a run, the number of rows looked up before it\<close>
  "save_points_of run = (case run of None \<Rightarrow> [] | Some st \<Rightarrow> save_points 0 (events st))"

definition calls_of :: "enricher option \<Rightarrow> event list" where
  "calls_of run = (case run of None \<Rightarrow> [] | Some st \<Rightarrow> events st)"

definition raised_by :: "enricher option \<Rightarrow> exn option" where
  "raised_by run = (case run of None \<Rightarrow> None | Some st \<Rightarrow> raised st)"

definition plain :: "pandas \<Rightarrow> cell \<Rightarrow> bool" where
  \<comment> \<open>the cell is not a text that marks a missing value\<close>
  "plain pd c = (case c of Text s \<Rightarrow> \<not> na_marker pd s | _ \<Rightarrow> True)"

definition stays_text :: "pandas \<Rightarrow> cell \<Rightarrow> bool" where
  \<comment> \<open>the cell is a text that does not read as a number\<close>
  "stays_text pd c = (case c of Text s \<Rightarrow> as_number pd s = None | _ \<Rightarrow> False)"

definition column_kept :: "pandas \<Rightarrow> cell list \<Rightarrow> bool" where
  \<comment> \<open>no cell of the column marks a missing value, and one of them keeps the column from
      becoming numeric\<close>
  "column_kept pd cs = (list_all (plain pd) cs \<and> list_ex (stays_text pd) cs)"

definition cells_kept :: "pandas \<Rightarrow> table \<Rightarrow> bool" where
  "cells_kept pd f =
     (column_kept pd (map name_cell (rows f)) \<and> column_kept pd (map phone_cell (rows f))
      \<and> column_kept pd (map email_cell (rows f)))"

definition next_button :: element where
  "next_button =
     \<lparr>el_text = Inr ''Next'', el_href = Inr (Some ''/search?page=next''),
      el_class = Inr (Some ''next ajax-page''), el_key = 1\<rparr>"
















fun saved_tables :: "event list \<Rightarrow> table list" where
  \<comment> \<open>the tables that the saves of a trace write, in order\<close>
  "saved_tables [] = []"
| "saved_tables (Save t # evs) = t # saved_tables evs"
| "saved_tables (Search n # evs) = saved_tables evs"
| "saved_tables (Visit u # evs) = saved_tables evs"

definition enriched_upto :: "nat \<Rightarrow> nat \<Rightarrow> table" where
  \<comment> \<open>the frame of \<open>collected_file n\<close> when the first \<open>k\<close> rows have got the address of
      \<open>example_markup\<close> and the others still hold \<open>NaN\<close>\<close>
  "enriched_upto k n =
     \<lparr>columns = enriched_columns,
      rows = replicate k (plain_row ''Acme Plumbing'' ''Not Available'' (Text ''info@example.org''))
           @ replicate (n - k) (plain_row ''Acme Plumbing'' ''Not Available'' (Text ''NaN''))\<rparr>"

section \<open>The name of a listing\<close>

lemma name_loop_hit:
  "yields l sel = Some t \<Longrightarrow> name_loop l cur (sel # post) = ([sel], Inr t)"
  by (auto simp: yields_def split: sum.splits if_splits)

lemma name_loop_miss:
  "quiet l sel \<Longrightarrow> yields l sel = None \<Longrightarrow>
   \<exists>cur'. name_loop l cur (sel # sels) = then_looked sel (name_loop l cur' sels)"
  by (auto simp: yields_def quiet_def split: sum.splits if_splits)

lemma name_loop_first_hit:
  "\<forall>s\<in>set pre. quiet l s \<and> yields l s = None \<Longrightarrow> yields l sel = Some t \<Longrightarrow>
   name_loop l cur (pre @ sel # post) = (pre @ [sel], Inr t)"
proof (induction pre arbitrary: cur)
  case Nil
  then show ?case using name_loop_hit by simp
next
  case (Cons s pre)
  then obtain cur' where
    "name_loop l cur (s # pre @ sel # post) = then_looked s (name_loop l cur' (pre @ sel # post))"
    using name_loop_miss[of l s cur "pre @ sel # post"] by auto
  with Cons show ?case by (simp add: then_looked_def)
qed

lemma name_loop_all_absent:
  "\<forall>s\<in>set chain. absent l s \<Longrightarrow> name_loop l cur chain = (chain, Inr cur)"
  by (induction chain) (auto simp: absent_def then_looked_def)

lemma name_loop_prefix: "prefix (fst (name_loop l cur chain)) chain"
  by (induction chain arbitrary: cur) (auto simp: then_looked_def split: sum.splits)

lemma filter_split_first:
  "filter P xs = y # ys \<Longrightarrow> \<exists>pre post. xs = pre @ y # post \<and> (\<forall>x\<in>set pre. \<not> P x) \<and> P y"
  by (metis filter_eq_Cons_iff)

lemma name_loop_winner:
  assumes "\<forall>s\<in>set chain. quiet l s" and "filter (\<lambda>s. yields l s \<noteq> None) chain = w # ws"
  shows "snd (name_loop l cur chain) = Inr (the (yields l w))"
proof -
  from filter_split_first[OF assms(2)] obtain pre post where
    c: "chain = pre @ w # post" and m: "\<forall>x\<in>set pre. yields l x = None" and h: "yields l w \<noteq> None"
    by auto
  from h obtain t where t: "yields l w = Some t" by auto
  have "\<forall>s\<in>set pre. quiet l s \<and> yields l s = None" using assms(1) c m by auto
  from name_loop_first_hit[OF this t] show ?thesis using c t by simp
qed

text \<open>
  Claim C1, as the code has it, for a listing element and a chain of name selectors whose
  lookups raise nothing but \<open>NoSuchElementException\<close>. The extractor returns the trimmed
  text of the first candidate, in the order of the chain, that yields a text that is not
  empty, and looks up no candidate after it; when every candidate fails it returns the
  sentinel it started with (\<open>Unknown\<close>); the candidates looked up are a prefix of the chain,
  so none is tried twice; and a chain with the same candidates yielding text, in the same
  order, gives the same value. What is returned when a candidate matched an element with
  empty text and no candidate yields text is left out.
\<close>

theorem name_chain_first_hit_wins:
  assumes q: "\<forall>s\<in>set chain. quiet l s"
  shows "(chain = pre @ sel # post \<and> (\<forall>s\<in>set pre. yields l s = None) \<and> yields l sel = Some t
            \<longrightarrow> name_loop l cur chain = (pre @ [sel], Inr t))
       \<and> ((\<forall>s\<in>set chain. absent l s) \<longrightarrow> name_loop l cur chain = (chain, Inr cur))
       \<and> prefix (fst (name_loop l cur chain)) chain
       \<and> ((\<forall>s\<in>set chain'. quiet l s)
            \<and> filter (\<lambda>s. yields l s \<noteq> None) chain' = filter (\<lambda>s. yields l s \<noteq> None) chain
            \<and> filter (\<lambda>s. yields l s \<noteq> None) chain \<noteq> []
            \<longrightarrow> snd (name_loop l cur chain') = snd (name_loop l cur chain))"
proof (intro conjI impI)
  assume a: "chain = pre @ sel # post \<and> (\<forall>s\<in>set pre. yields l s = None) \<and> yields l sel = Some t"
  then have "\<forall>s\<in>set pre. quiet l s \<and> yields l s = None" using q by auto
  from name_loop_first_hit[OF this] a show "name_loop l cur chain = (pre @ [sel], Inr t)" by blast
next
  assume "\<forall>s\<in>set chain. absent l s"
  then show "name_loop l cur chain = (chain, Inr cur)" by (rule name_loop_all_absent)
next
  show "prefix (fst (name_loop l cur chain)) chain" by (rule name_loop_prefix)
next
  assume a: "(\<forall>s\<in>set chain'. quiet l s)
            \<and> filter (\<lambda>s. yields l s \<noteq> None) chain' = filter (\<lambda>s. yields l s \<noteq> None) chain
            \<and> filter (\<lambda>s. yields l s \<noteq> None) chain \<noteq> []"
  then obtain w ws where w: "filter (\<lambda>s. yields l s \<noteq> None) chain = w # ws"
    by (cases "filter (\<lambda>s. yields l s \<noteq> None) chain") auto
  with a have w': "filter (\<lambda>s. yields l s \<noteq> None) chain' = w # ws" by simp
  from a have q': "\<forall>s\<in>set chain'. quiet l s" by blast
  show "snd (name_loop l cur chain') = snd (name_loop l cur chain)"
    using name_loop_winner[OF q w] name_loop_winner[OF q' w'] by simp
qed

lemma acme_quiet: "\<forall>s\<in>set name_selectors. quiet acme_listing s"
  by (simp add: name_selectors_def quiet_def acme_listing_def plain_element_def)

theorem name_chain_first_hit_wins_witness:
  "map (quiet acme_listing) name_selectors = [True, True, True, True, True, True]
   \<and> name_selectors = [''a.business-name''] @ ''.business-name'' # tl (tl name_selectors)
   \<and> yields acme_listing ''a.business-name'' = None
   \<and> yields acme_listing ''.business-name'' = Some ''Acme Plumbing''
   \<and> name_loop acme_listing ''Unknown'' name_selectors
        = ([''a.business-name''] @ [''.business-name''], Inr ''Acme Plumbing'')
   \<and> map (absent nameless_listing) name_selectors = [True, True, True, True, True, True]
   \<and> name_loop nameless_listing ''Unknown'' name_selectors = (name_selectors, Inr ''Unknown'')
   \<and> snd (name_loop acme_listing ''Unknown'' [''.info h2 a'', ''.business-name'', ''a.business-name'', ''h2.n a''])
        = snd (name_loop acme_listing ''Unknown'' name_selectors)"
proof -
  have s: "name_selectors = [''a.business-name''] @ ''.business-name'' # tl (tl name_selectors)"
    by (simp add: name_selectors_def)
  have y1: "yields acme_listing ''a.business-name'' = None" by code_simp
  have y2: "yields acme_listing ''.business-name'' = Some ''Acme Plumbing''" by code_simp
  have q: "map (quiet acme_listing) name_selectors = [True, True, True, True, True, True]"
    by code_simp
  have a: "map (absent nameless_listing) name_selectors = [True, True, True, True, True, True]"
    by code_simp
  have qn: "\<forall>s\<in>set name_selectors. quiet nameless_listing s"
    by (simp add: name_selectors_def quiet_def nameless_listing_def)
  have an: "\<forall>s\<in>set name_selectors. absent nameless_listing s"
    by (simp add: name_selectors_def absent_def nameless_listing_def)
  have 1: "name_loop acme_listing ''Unknown'' name_selectors
        = ([''a.business-name''] @ [''.business-name''], Inr ''Acme Plumbing'')"
    using name_chain_first_hit_wins[OF acme_quiet, of "[''a.business-name'']" "''.business-name''"
        "tl (tl name_selectors)" "''Acme Plumbing''" "''Unknown''"] s y1 y2 by simp
  have 2: "name_loop nameless_listing ''Unknown'' name_selectors = (name_selectors, Inr ''Unknown'')"
    using name_chain_first_hit_wins[OF qn, of _ _ _ _ "''Unknown''"] an by blast
  have q': "\<forall>s\<in>set [''.info h2 a'', ''.business-name'', ''a.business-name'', ''h2.n a'']. quiet acme_listing s"
    by (simp add: quiet_def acme_listing_def plain_element_def)
  have f: "filter (\<lambda>s. yields acme_listing s \<noteq> None) [''.info h2 a'', ''.business-name'', ''a.business-name'', ''h2.n a'']
      = filter (\<lambda>s. yields acme_listing s \<noteq> None) name_selectors"
    by code_simp
  have ne: "filter (\<lambda>s. yields acme_listing s \<noteq> None) name_selectors \<noteq> []" by code_simp
  have 3: "snd (name_loop acme_listing ''Unknown'' [''.info h2 a'', ''.business-name'', ''a.business-name'', ''h2.n a''])
        = snd (name_loop acme_listing ''Unknown'' name_selectors)"
    using name_chain_first_hit_wins[OF acme_quiet, of _ _ _ _ "''Unknown''"
        "[''.info h2 a'', ''.business-name'', ''a.business-name'', ''h2.n a'']"] q' f ne by blast
  show ?thesis using s y1 y2 q a 1 2 3 by blast
qed

text \<open>
  The claim as stated fails twice. In a listing whose first selector matches an element with
  blank text and whose other selectors match nothing, no candidate yields text, and the
  extractor returns the empty string, not the sentinel. And swapping two candidates that both
  yield text changes the winner although the first winner is still in the chain.
\<close>

theorem empty_text_is_not_unknown_counterexample:
  "map (yields blank_name_listing) name_selectors = [None, None, None, None, None, None]
   \<and> extract_name blank_name_listing = Inr []
   \<and> snd (name_loop acme_listing ''Unknown'' [''.business-name'', ''h2.n a'']) = Inr ''Acme Plumbing''
   \<and> snd (name_loop acme_listing ''Unknown'' [''h2.n a'', ''.business-name'']) = Inr ''Acme Plumbing Inc''"
  by (intro conjI; code_simp)

section \<open>Names that are dropped and names that are kept\<close>

lemma process_listing_cases:
  "process_listing l rs = rs
   \<or> (\<exists>name. extract_name l = Inr name \<and> name \<noteq> ''Unknown''
        \<and> process_listing l rs = rs @ [\<lparr>Business_Name = name, Phone_Number = extract_phone l\<rparr>])"
  by (auto simp: process_listing_def listing_body_def Let_def split: sum.splits)

lemma process_listing_known:
  "\<forall>r\<in>set rs. Business_Name r \<noteq> ''Unknown''
   \<Longrightarrow> \<forall>r\<in>set (process_listing l rs). Business_Name r \<noteq> ''Unknown''"
  using process_listing_cases[of l rs] by auto

lemma process_page_known:
  "\<forall>r\<in>set rs. Business_Name r \<noteq> ''Unknown''
   \<Longrightarrow> \<forall>r\<in>set (fst (process_page mr ls rs)). Business_Name r \<noteq> ''Unknown''"
proof (induction ls arbitrary: rs)
  case Nil
  then show ?case by simp
next
  case (Cons l ls)
  show ?case
  proof (cases "reached mr (int (length rs))")
    case True
    then show ?thesis using Cons.prems by simp
  next
    case False
    then show ?thesis using Cons.IH[OF process_listing_known[OF Cons.prems]] by simp
  qed
qed

lemma walk_known:
  "walk fuel d mr mp w cp rs = Some (rs', p, w') \<Longrightarrow> \<forall>r\<in>set rs. Business_Name r \<noteq> ''Unknown''
   \<Longrightarrow> \<forall>r\<in>set rs'. Business_Name r \<noteq> ''Unknown''"
proof (induction fuel arbitrary: w cp rs)
  case 0
  then show ?case by simp
next
  case (Suc fuel)
  let ?ls = "locate_listings d w listing_selectors"
  obtain rs1 b where pp: "process_page mr ?ls rs = (rs1, b)" by (cases "process_page mr ?ls rs")
  have k1: "\<forall>r\<in>set rs1. Business_Name r \<noteq> ''Unknown''"
    using process_page_known[OF Suc.prems(2), of mr ?ls] pp by simp
  obtain w1 nf where np: "next_page d w next_button_selectors = (w1, nf)"
    by (cases "next_page d w next_button_selectors")
  show ?case
  proof (cases "?ls = [] \<or> b \<or> reached mp cp \<or> \<not> nf")
    case True
    then have "rs' = rs \<or> rs' = rs1" using Suc.prems(1) pp np
      by (auto simp: Let_def split: if_splits bool.splits)
    then show ?thesis using k1 Suc.prems(2) by auto
  next
    case False
    then have "walk fuel d mr mp w1 (cp + 1) rs1 = Some (rs', p, w')" using Suc.prems(1) pp np
      by (auto simp: Let_def split: if_splits bool.splits)
    from Suc.IH[OF this k1] show ?thesis .
  qed
qed

lemma returned_Some:
  "returned r = Some (rs, p) \<Longrightarrow> \<exists>w'. r = Some (rs, p, w')"
  by (auto simp: returned_def split: option.splits)

text \<open>
  Claim C9. A listing whose extracted, trimmed name is exactly \<open>Unknown\<close> is dropped as a
  listing with no name is: the extractor starts from the literal \<open>Unknown\<close>, which is what it
  returns when no selector matches, and a listing is kept or dropped by comparing the name
  with that string. So no record of a finished run has the name \<open>Unknown\<close>.
\<close>

theorem unknown_name_dropped:
  "(extract_name l = Inr ''Unknown'' \<longrightarrow> process_listing l results = results)
   \<and> ((\<forall>s\<in>set name_selectors. absent l s) \<longrightarrow> extract_name l = Inr ''Unknown'')
   \<and> (extract_listings fuel d max_results max_pages w = Some (rs, p)
        \<longrightarrow> (\<forall>r\<in>set rs. Business_Name r \<noteq> ''Unknown''))"
proof (intro conjI impI)
  assume "extract_name l = Inr ''Unknown''"
  then show "process_listing l results = results"
    by (simp add: process_listing_def listing_body_def split: sum.splits)
next
  assume "\<forall>s\<in>set name_selectors. absent l s"
  then have "\<forall>s\<in>set name_selectors. find_element l s = Inl NoSuchElementException"
    by (simp add: absent_def)
  then show "extract_name l = Inr ''Unknown''"
    by (simp add: extract_name_def name_selectors_def then_looked_def)
next
  assume "extract_listings fuel d max_results max_pages w = Some (rs, p)"
  then obtain w' where "walk fuel d max_results max_pages w 1 [] = Some (rs, p, w')"
    using returned_Some[of "walk fuel d max_results max_pages w 1 []" rs p]
    by (auto simp: extract_listings_def)
  then show "\<forall>r\<in>set rs. Business_Name r \<noteq> ''Unknown''"
    using walk_known[of fuel d max_results max_pages w 1 "[]" rs p w'] by simp
qed

theorem unknown_name_dropped_witness:
  "extract_name unknown_listing = Inr ''Unknown''
   \<and> process_listing unknown_listing [\<lparr>Business_Name = ''Acme Plumbing'', Phone_Number = ''2135550100''\<rparr>]
        = [\<lparr>Business_Name = ''Acme Plumbing'', Phone_Number = ''2135550100''\<rparr>]
   \<and> map (absent nameless_listing) name_selectors = [True, True, True, True, True, True]
   \<and> extract_name nameless_listing = Inr ''Unknown''
   \<and> extract_listings 1 (single_page [acme_listing, unknown_listing, nameless_listing]) None None ()
        = Some ([\<lparr>Business_Name = ''Acme Plumbing'', Phone_Number = ''2135550100''\<rparr>], 1)
   \<and> Business_Name \<lparr>Business_Name = ''Acme Plumbing'', Phone_Number = ''2135550100''\<rparr> \<noteq> ''Unknown''"
proof -
  have u: "extract_name unknown_listing = Inr ''Unknown''" by code_simp
  have a: "map (absent nameless_listing) name_selectors = [True, True, True, True, True, True]"
    by code_simp
  have an: "\<forall>s\<in>set name_selectors. absent nameless_listing s"
    by (simp add: name_selectors_def absent_def nameless_listing_def)
  have e: "extract_listings 1 (single_page [acme_listing, unknown_listing, nameless_listing]) None None ()
        = Some ([\<lparr>Business_Name = ''Acme Plumbing'', Phone_Number = ''2135550100''\<rparr>], 1)"
    by code_simp
  have 1: "process_listing unknown_listing [\<lparr>Business_Name = ''Acme Plumbing'', Phone_Number = ''2135550100''\<rparr>]
        = [\<lparr>Business_Name = ''Acme Plumbing'', Phone_Number = ''2135550100''\<rparr>]"
    using unknown_name_dropped[THEN conjunct1, of unknown_listing "[\<lparr>Business_Name = ''Acme Plumbing'', Phone_Number = ''2135550100''\<rparr>]"] u by simp
  have 2: "extract_name nameless_listing = Inr ''Unknown''"
    using unknown_name_dropped[THEN conjunct2, THEN conjunct1, of nameless_listing] an by simp
  have 3: "\<forall>r\<in>set [\<lparr>Business_Name = ''Acme Plumbing'', Phone_Number = ''2135550100''\<rparr>]. Business_Name r \<noteq> ''Unknown''"
    using unknown_name_dropped[THEN conjunct2, THEN conjunct2, of 1 "single_page [acme_listing, unknown_listing, nameless_listing]" None None "()"
        "[\<lparr>Business_Name = ''Acme Plumbing'', Phone_Number = ''2135550100''\<rparr>]" 1] e
    by simp
  show ?thesis using u a e 1 2 3 by simp
qed

text \<open>
  Claim C2 fails on the code. A listing whose first name selector matches an element with
  blank text, and whose other selectors match nothing, leaves the empty string in
  \<open>business_name\<close>; the test against \<open>Unknown\<close> lets it through, and both files append a
  record with an empty name. The same happens for a link of class \<open>business-name\<close> that
  has no text, which the three selectors on that class match.
\<close>

theorem blank_name_is_collected:
  "extract_listings 1 (single_page [blank_name_listing]) None None ()
     = Some ([\<lparr>Business_Name = [], Phone_Number = ''Not Available''\<rparr>], 1)
   \<and> extract_listings_unified 1 (single_page [blank_name_listing]) ()
     = Some ([\<lparr>Business_Name = [], Phone_Number = ''Not Available''\<rparr>], 1)
   \<and> extract_listings 1 (single_page [empty_anchor_listing]) None None ()
     = Some ([\<lparr>Business_Name = [], Phone_Number = ''Not Available''\<rparr>], 1)
   \<and> extract_listings_unified 1 (single_page [empty_anchor_listing]) ()
     = Some ([\<lparr>Business_Name = [], Phone_Number = ''Not Available''\<rparr>], 1)"
  by (intro conjI; code_simp)

section \<open>The telephone links of a listing\<close>

lemma phone_links_loop_Some:
  "phone_links_loop links = Inr (Some p)
   \<Longrightarrow> length p \<ge> 10 \<and> (\<exists>link\<in>set links. tel_candidate link = Inr p)"
  by (induction links) (auto split: sum.splits if_splits)

lemma phone_links_loop_short:
  "\<forall>link\<in>set links. \<exists>t. tel_candidate link = Inr t \<and> length t < 10
   \<Longrightarrow> phone_links_loop links = Inr None"
  by (induction links) (auto split: sum.splits)

text \<open>
  Claim C10. In the telephone-link strategy the candidate value of a link is its trimmed
  visible text or, when that is empty, its target without \<open>tel:\<close> and \<open>+1\<close>. A value is
  accepted only when it has at least 10 characters; when every link's value is shorter the
  strategy finds nothing, and the phone is then what the regular expression finds in the
  markup of the listing.
\<close>

theorem tel_link_needs_ten_characters:
  "(phone_method2 l = Some p \<longrightarrow>
      length p \<ge> 10
      \<and> (\<exists>links. find_elements l tel_selector = Inr links
            \<and> (\<exists>link\<in>set links. tel_candidate link = Inr p)))
   \<and> (find_elements l tel_selector = Inr links
        \<and> (\<forall>link\<in>set links. \<exists>t. tel_candidate link = Inr t \<and> length t < 10)
        \<longrightarrow> phone_method2 l = None)
   \<and> (phone_method1 l phone_selectors = None \<and> phone_method2 l = None \<longrightarrow>
        extract_phone l = (case phone_method3 l of Some m \<Rightarrow> m | None \<Rightarrow> ''Not Available''))
   \<and> (el_text link = Inr t \<and> el_href link = Inr (Some href) \<longrightarrow>
        tel_candidate link
          = Inr (if strip t \<noteq> [] then strip t else strip (remove_all ''+1'' (remove_all ''tel:'' href))))"
proof -
  have c1: "phone_method2 l = Some p \<longrightarrow>
      length p \<ge> 10
      \<and> (\<exists>links. find_elements l tel_selector = Inr links
            \<and> (\<exists>link\<in>set links. tel_candidate link = Inr p))"
  proof
    assume a: "phone_method2 l = Some p"
    then obtain ls where ls: "find_elements l tel_selector = Inr ls"
      and r: "phone_links_loop ls = Inr (Some p)"
      by (auto simp: phone_method2_def split: sum.splits option.splits)
    from phone_links_loop_Some[OF r] ls
    show "length p \<ge> 10 \<and> (\<exists>links. find_elements l tel_selector = Inr links
            \<and> (\<exists>link\<in>set links. tel_candidate link = Inr p))" by auto
  qed
  have c2: "find_elements l tel_selector = Inr links
        \<and> (\<forall>link\<in>set links. \<exists>t. tel_candidate link = Inr t \<and> length t < 10)
        \<longrightarrow> phone_method2 l = None"
    using phone_links_loop_short[of links] by (simp add: phone_method2_def)
  have c3: "phone_method1 l phone_selectors = None \<and> phone_method2 l = None \<longrightarrow>
        extract_phone l = (case phone_method3 l of Some m \<Rightarrow> m | None \<Rightarrow> ''Not Available'')"
    by (simp add: extract_phone_def)
  have c4: "el_text link = Inr t \<and> el_href link = Inr (Some href) \<longrightarrow>
        tel_candidate link
          = Inr (if strip t \<noteq> [] then strip t else strip (remove_all ''+1'' (remove_all ''tel:'' href)))"
    by (simp add: tel_candidate_def)
  show ?thesis by (rule conjI[OF c1 conjI[OF c2 conjI[OF c3 c4]]])
qed

theorem tel_link_needs_ten_characters_witness:
  "phone_method2 acme_listing = Some ''2135550100'' \<and> length ''2135550100'' \<ge> (10::nat)
   \<and> find_elements short_tel_listing tel_selector
        = Inr [link_element ''555-0100'' ''tel:5550100'', link_element [] ''tel:+1555010'']
   \<and> tel_candidate (link_element ''555-0100'' ''tel:5550100'') = Inr ''555-0100''
   \<and> tel_candidate (link_element [] ''tel:+1555010'') = Inr ''555010''
   \<and> phone_method1 short_tel_listing phone_selectors = None
   \<and> phone_method2 short_tel_listing = None
   \<and> phone_method3 short_tel_listing = Some ''213.555.0100''
   \<and> extract_phone short_tel_listing = ''213.555.0100''"
proof -
  have a: "phone_method2 acme_listing = Some ''2135550100''" by code_simp
  have f: "find_elements short_tel_listing tel_selector
        = Inr [link_element ''555-0100'' ''tel:5550100'', link_element [] ''tel:+1555010'']"
    by (simp add: short_tel_listing_def)
  have c1: "tel_candidate (link_element ''555-0100'' ''tel:5550100'') = Inr ''555-0100''"
    by code_simp
  have c2: "tel_candidate (link_element [] ''tel:+1555010'') = Inr ''555010''" by code_simp
  have m1: "phone_method1 short_tel_listing phone_selectors = None" by code_simp
  have m3: "phone_method3 short_tel_listing = Some ''213.555.0100''" by code_simp
  have 1: "length ''2135550100'' \<ge> (10::nat)"
    using tel_link_needs_ten_characters[THEN conjunct1, of acme_listing "''2135550100''"] a
    by simp
  have sh: "\<forall>link\<in>set [link_element ''555-0100'' ''tel:5550100'', link_element [] ''tel:+1555010''].
      \<exists>t. tel_candidate link = Inr t \<and> length t < 10"
    using c1 c2 by simp
  have 2: "phone_method2 short_tel_listing = None"
    using tel_link_needs_ten_characters[THEN conjunct2, THEN conjunct1, of short_tel_listing
        "[link_element ''555-0100'' ''tel:5550100'', link_element [] ''tel:+1555010'']"] f sh
    by blast
  have 3: "extract_phone short_tel_listing = ''213.555.0100''"
    using tel_link_needs_ten_characters[THEN conjunct2, THEN conjunct2, THEN conjunct1, of short_tel_listing]
      m1 2 m3 by simp
  show ?thesis using a f c1 c2 m1 m3 1 2 3 by blast
qed

section \<open>Failures while one record is processed\<close>
















section \<open>The email scan of the page source\<close>

lemma py_in_sublist: "py_in x s = sublist x s"
  by (induction s) (auto simp: sublist_Cons_right)

lemma contains_blocked_code: "contains_blocked e = list_ex (\<lambda>x. py_in x e) blocked_terms"
  by (simp add: contains_blocked_def py_in_sublist list_ex_iff)

lemma valid_emails_filter: "valid_emails emails = filter (\<lambda>e. \<not> contains_blocked e) emails"
  by (simp add: valid_emails_def contains_blocked_code)

lemma example_matches:
  "findall email_pattern example_markup
     = [''info@example.org'', ''support@facebook.com'', ''support@facebook.com'']"
  by code_simp

lemma info_not_blocked: "\<not> contains_blocked ''info@example.org''"
  unfolding contains_blocked_code by code_simp

lemma support_blocked: "contains_blocked ''support@facebook.com''"
  unfolding contains_blocked_code by code_simp

text \<open>
  Claim C5, as the code has it. The scan takes the matches of the email pattern in document
  order, drops every match in which one of the terms \<open>facebook.com\<close>, \<open>support@\<close>,
  \<open>noreply\<close>, \<open>no-reply\<close>, \<open>notification\<close> occurs anywhere, and returns the first match
  left, or \<open>NaN\<close> when none is left. Markup with \<open>info@example.org\<close> once and
  \<open>support@facebook.com\<close> twice gives \<open>info@example.org\<close>.
\<close>

theorem regex_fallback_first_unblocked:
  "(findall email_pattern html = pre @ e # post \<and> (\<forall>m\<in>set pre. contains_blocked m)
      \<and> \<not> contains_blocked e \<longrightarrow> regex_fallback html = e)
   \<and> ((\<forall>m\<in>set (findall email_pattern html). contains_blocked m) \<longrightarrow> regex_fallback html = ''NaN'')
   \<and> regex_fallback example_markup = ''info@example.org''"
proof (intro conjI impI)
  assume a: "findall email_pattern html = pre @ e # post \<and> (\<forall>m\<in>set pre. contains_blocked m)
      \<and> \<not> contains_blocked e"
  then have "filter (\<lambda>e. \<not> contains_blocked e) pre = []" by (simp add: filter_empty_conv)
  with a have "valid_emails (findall email_pattern html) = e # filter (\<lambda>e. \<not> contains_blocked e) post"
    by (simp add: valid_emails_filter)
  with a show "regex_fallback html = e" by (simp add: regex_fallback_def Let_def)
next
  assume "\<forall>m\<in>set (findall email_pattern html). contains_blocked m"
  then have "valid_emails (findall email_pattern html) = []"
    by (simp add: valid_emails_filter filter_empty_conv)
  then show "regex_fallback html = ''NaN''" by (simp add: regex_fallback_def Let_def)
next
  show "regex_fallback example_markup = ''info@example.org''" by code_simp
qed

theorem regex_fallback_first_unblocked_witness:
  "findall email_pattern example_markup
     = [] @ ''info@example.org'' # [''support@facebook.com'', ''support@facebook.com'']
   \<and> \<not> contains_blocked ''info@example.org''
   \<and> regex_fallback example_markup = ''info@example.org''
   \<and> findall email_pattern ''support@facebook.com'' = [''support@facebook.com'']
   \<and> contains_blocked ''support@facebook.com''
   \<and> regex_fallback ''support@facebook.com'' = ''NaN''"
proof -
  have m: "findall email_pattern example_markup
     = [] @ ''info@example.org'' # [''support@facebook.com'', ''support@facebook.com'']"
    using example_matches by simp
  have s: "findall email_pattern ''support@facebook.com'' = [''support@facebook.com'']"
    by code_simp
  have 1: "regex_fallback example_markup = ''info@example.org''"
    using regex_fallback_first_unblocked[of example_markup "[]" "''info@example.org''"
        "[''support@facebook.com'', ''support@facebook.com'']"] m info_not_blocked by simp
  have 2: "regex_fallback ''support@facebook.com'' = ''NaN''"
    using regex_fallback_first_unblocked[of "''support@facebook.com''"] s support_blocked by simp
  show ?thesis using m s 1 2 info_not_blocked support_blocked by blast
qed

text \<open>
  The claim as stated fails both ways: \<open>customersupport@biz.com\<close> is not on the platform's
  domain and begins with none of the words, yet the scan drops it; \<open>supportive@biz.com\<close>
  begins with \<open>support\<close>, yet the scan returns it.
\<close>

theorem prefix_blocklist_counterexample:
  "findall email_pattern ''<p>customersupport@biz.com</p>'' = [''customersupport@biz.com'']
   \<and> \<not> spec_non_contact ''customersupport@biz.com''
   \<and> regex_fallback ''<p>customersupport@biz.com</p>'' = ''NaN''
   \<and> findall email_pattern ''<p>supportive@biz.com</p>'' = [''supportive@biz.com'']
   \<and> spec_non_contact ''supportive@biz.com''
   \<and> regex_fallback ''<p>supportive@biz.com</p>'' = ''supportive@biz.com''"
  unfolding spec_non_contact_def by (intro conjI; code_simp)

section \<open>The batch driver of the enricher\<close>

lemma enrich_loop_all_done:
  "\<forall>r\<in>set rs. has_email r \<Longrightarrow> enrich_loop pd w idx rs st = st"
  by (induction rs arbitrary: idx) auto

lemma sanitize_plain: "plain pd c \<Longrightarrow> sanitize pd c = c"
  by (cases c) (auto simp: plain_def sanitize_def)

lemma stays_text_not_numeric: "stays_text pd c \<Longrightarrow> \<not> numeric pd c"
  by (cases c) (auto simp: stays_text_def numeric_def)

lemma read_column_kept: "column_kept pd cs \<Longrightarrow> read_column pd cs = (cs, False)"
proof -
  assume k: "column_kept pd cs"
  then have "map (sanitize pd) cs = cs"
    by (auto simp: column_kept_def list_all_iff sanitize_plain intro: map_idI)
  moreover have "\<not> list_all (numeric pd) cs"
    using k stays_text_not_numeric by (auto simp: column_kept_def list_all_iff list_ex_iff)
  ultimately show ?thesis by (simp add: read_column_def)
qed

lemma rows_rebuilt:
  "map (\<lambda>(n, p, e). \<lparr>name_cell = n, phone_cell = p, email_cell = e\<rparr>)
       (zip (map name_cell rs) (zip (map phone_cell rs) (map email_cell rs))) = rs"
  by (induction rs) auto

lemma read_excel_kept: "cells_kept pd f \<Longrightarrow> read_excel pd f = (f, False)"
  by (simp add: read_excel_def cells_kept_def read_column_kept rows_rebuilt)

lemma read_excel_columns: "columns (fst (read_excel pd f)) = columns f"
  by (simp add: read_excel_def Let_def)

lemma rerun_of_read_frame:
  assumes "''Business Name'' \<in> set (columns f)" and "''Email'' \<in> set (columns f)"
      and "\<forall>r\<in>set (rows (fst (read_excel pd f))). has_email r"
  shows "process_excel_file pd w (Some f)
     = Some \<lparr>df = fst (read_excel pd f), email_float = snd (read_excel pd f),
             events = [Save (fst (read_excel pd f))],
             raised = preview (fst (read_excel pd f))\<rparr>"
  using assms
  by (simp add: process_excel_file_def Let_def read_excel_columns enrich_loop_all_done
      record_event_def)

text \<open>
  Claim C4, as the code has it. The enricher works on the frame that \<open>read_excel\<close> makes of
  the file. When the file has the columns and every row of that frame has an email that is
  neither missing nor \<open>NaN\<close>, the enricher makes no search and visits no profile page: its
  only call is the final save, and what it writes is the frame as read; after the save the
  preview may still raise. The table written is the table of the file when reading re-types
  no cell: no text of the file marks a missing value, and every column holds a text that
  does not read as a number.
\<close>

theorem enricher_rerun_is_idle:
  "(''Business Name'' \<in> set (columns f) \<and> ''Email'' \<in> set (columns f)
      \<and> (\<forall>r\<in>set (rows (fst (read_excel pd f))). has_email r)
    \<longrightarrow> process_excel_file pd w (Some f)
          = Some \<lparr>df = fst (read_excel pd f), email_float = snd (read_excel pd f),
                  events = [Save (fst (read_excel pd f))],
                  raised = preview (fst (read_excel pd f))\<rparr>)
   \<and> (cells_kept pd f \<longrightarrow> read_excel pd f = (f, False))
   \<and> (''Business Name'' \<in> set (columns f) \<and> ''Email'' \<in> set (columns f)
      \<and> (\<forall>r\<in>set (rows f). has_email r) \<and> cells_kept pd f
    \<longrightarrow> calls_of (process_excel_file pd w (Some f)) = [Save f]
        \<and> save_points_of (process_excel_file pd w (Some f)) = [0])"
proof -
  have c1: "''Business Name'' \<in> set (columns f) \<and> ''Email'' \<in> set (columns f)
      \<and> (\<forall>r\<in>set (rows (fst (read_excel pd f))). has_email r)
    \<longrightarrow> process_excel_file pd w (Some f)
          = Some \<lparr>df = fst (read_excel pd f), email_float = snd (read_excel pd f),
                  events = [Save (fst (read_excel pd f))],
                  raised = preview (fst (read_excel pd f))\<rparr>"
    using rerun_of_read_frame by blast
  have c2: "cells_kept pd f \<longrightarrow> read_excel pd f = (f, False)"
    using read_excel_kept by blast
  have c3: "''Business Name'' \<in> set (columns f) \<and> ''Email'' \<in> set (columns f)
      \<and> (\<forall>r\<in>set (rows f). has_email r) \<and> cells_kept pd f
    \<longrightarrow> calls_of (process_excel_file pd w (Some f)) = [Save f]
        \<and> save_points_of (process_excel_file pd w (Some f)) = [0]"
  proof (intro impI)
    assume a: "''Business Name'' \<in> set (columns f) \<and> ''Email'' \<in> set (columns f)
      \<and> (\<forall>r\<in>set (rows f). has_email r) \<and> cells_kept pd f"
    then have r: "read_excel pd f = (f, False)" using read_excel_kept by blast
    then have "\<forall>r\<in>set (rows (fst (read_excel pd f))). has_email r" using a by simp
    then have "process_excel_file pd w (Some f)
          = Some \<lparr>df = fst (read_excel pd f), email_float = snd (read_excel pd f),
                  events = [Save (fst (read_excel pd f))],
                  raised = preview (fst (read_excel pd f))\<rparr>"
      using a rerun_of_read_frame[of f pd w] by blast
    then show "calls_of (process_excel_file pd w (Some f)) = [Save f]
        \<and> save_points_of (process_excel_file pd w (Some f)) = [0]"
      using r by (simp add: calls_of_def save_points_of_def)
  qed
  show ?thesis by (rule conjI[OF c1 conjI[OF c2 c3]])
qed

theorem enricher_rerun_is_idle_witness:
  "''Business Name'' \<in> set (columns done_file) \<and> ''Email'' \<in> set (columns done_file)
   \<and> map has_email (rows done_file) = [True, True]
   \<and> cells_kept (pandas_like True) done_file
   \<and> read_excel (pandas_like True) done_file = (done_file, False)
   \<and> map has_email (rows (fst (read_excel (pandas_like True) digits_file))) = [True, True]
   \<and> process_excel_file (pandas_like True) helpful_web (Some digits_file)
       = Some \<lparr>df = fst (read_excel (pandas_like True) digits_file),
               email_float = snd (read_excel (pandas_like True) digits_file),
               events = [Save (fst (read_excel (pandas_like True) digits_file))],
               raised = preview (fst (read_excel (pandas_like True) digits_file))\<rparr>
   \<and> calls_of (process_excel_file (pandas_like True) helpful_web (Some done_file)) = [Save done_file]
   \<and> save_points_of (process_excel_file (pandas_like True) helpful_web (Some done_file)) = [0]"
proof -
  let ?pd = "pandas_like True"
  note T = enricher_rerun_is_idle
  have c: "''Business Name'' \<in> set (columns done_file) \<and> ''Email'' \<in> set (columns done_file)"
    by (simp add: done_file_def enriched_columns_def)
  have c': "''Business Name'' \<in> set (columns digits_file) \<and> ''Email'' \<in> set (columns digits_file)"
    by (simp add: digits_file_def enriched_columns_def)
  have h: "map has_email (rows done_file) = [True, True]"
    by (simp add: done_file_def has_email_def plain_row_def)
  have a: "\<forall>r\<in>set (rows done_file). has_email r"
    by (simp add: done_file_def has_email_def plain_row_def)
  have k: "cells_kept ?pd done_file" by code_simp
  have h': "map has_email (rows (fst (read_excel ?pd digits_file))) = [True, True]"
    by code_simp
  have "list_all has_email (rows (fst (read_excel ?pd digits_file)))" by code_simp
  then have a': "\<forall>r\<in>set (rows (fst (read_excel ?pd digits_file))). has_email r"
    by (simp add: list_all_iff)
  have 1: "process_excel_file ?pd helpful_web (Some digits_file)
       = Some \<lparr>df = fst (read_excel ?pd digits_file),
               email_float = snd (read_excel ?pd digits_file),
               events = [Save (fst (read_excel ?pd digits_file))],
               raised = preview (fst (read_excel ?pd digits_file))\<rparr>"
    using T[THEN conjunct1, of digits_file ?pd helpful_web] c' a' by simp
  have 2: "read_excel ?pd done_file = (done_file, False)"
    using T[THEN conjunct2, THEN conjunct1, of ?pd done_file] k by simp
  have 3: "calls_of (process_excel_file ?pd helpful_web (Some done_file)) = [Save done_file]
      \<and> save_points_of (process_excel_file ?pd helpful_web (Some done_file)) = [0]"
    using T[THEN conjunct2, THEN conjunct2, of done_file ?pd helpful_web] c a k by simp
  show ?thesis using c h k 2 h' 1 3 by (intro conjI) simp_all
qed

text \<open>
  The claim as stated fails on the file. In a file where every row has an email, the phones
  are texts of digits and one business is called \<open>NA\<close>, no lookup is made, and the final
  save writes the phones as numbers and the name \<open>NA\<close> as an empty cell: the table
  written is not the table of the file. The preview after the save then raises on the
  missing name.
\<close>

theorem rerun_rewrites_cells_counterexample:
  "map has_email (rows digits_file) = [True, True]
   \<and> calls_of (process_excel_file (pandas_like False) helpful_web (Some digits_file))
       = [Save \<lparr>columns = enriched_columns,
                rows = [\<lparr>name_cell = Text ''Acme Plumbing'', phone_cell = Number 2135550100,
                         email_cell = Text ''info@acme.example''\<rparr>,
                        \<lparr>name_cell = Empty, phone_cell = Number 3105550123,
                         email_cell = Text ''hello@na.example''\<rparr>]\<rparr>]
   \<and> map phone_cell (rows digits_file) = [Text ''2135550100'', Text ''3105550123'']
   \<and> map name_cell (rows digits_file) = [Text ''Acme Plumbing'', Text ''NA'']
   \<and> raised_by (process_excel_file (pandas_like False) helpful_web (Some digits_file))
       = Some TypeError"
  by (intro conjI; code_simp)

text \<open>
  Claim C6, at a resumed batch. The test for the save stands after the \<open>continue\<close> of a row
  that already has an email. In a file of twenty rows of which the tenth and the twentieth
  have an email, the enricher looks up eighteen rows and saves once, at the end: no save
  follows the tenth or the twentieth row. In a first run over thirty-five rows the saves
  follow the rows 10, 20, 30 and the last one, and each writes the frame with the
  addresses found so far.
\<close>

theorem autosave_bypassed_by_skip:
  "process_excel_file (pandas_like True) offline_web (Some resumed_file)
     = Some \<lparr>df = \<lparr>columns = enriched_columns,
                    rows = replicate 9 (plain_row ''Acme Plumbing'' ''Not Available'' (Text ''NaN''))
                         @ [plain_row ''Corner Cafe'' ''Not Available'' (Text ''hello@cafe.example'')]
                         @ replicate 9 (plain_row ''Acme Plumbing'' ''Not Available'' (Text ''NaN''))
                         @ [plain_row ''Corner Cafe'' ''Not Available'' (Text ''hello@cafe.example'')]\<rparr>,
             email_float = False,
             events = replicate 18 (Search ''Acme Plumbing'')
                    @ [Save \<lparr>columns = enriched_columns,
                             rows = replicate 9 (plain_row ''Acme Plumbing'' ''Not Available'' (Text ''NaN''))
                                  @ [plain_row ''Corner Cafe'' ''Not Available'' (Text ''hello@cafe.example'')]
                                  @ replicate 9 (plain_row ''Acme Plumbing'' ''Not Available'' (Text ''NaN''))
                                  @ [plain_row ''Corner Cafe'' ''Not Available'' (Text ''hello@cafe.example'')]\<rparr>],
             raised = None\<rparr>
   \<and> save_points_of (process_excel_file (pandas_like True) offline_web (Some resumed_file)) = [18]
   \<and> process_excel_file (pandas_like True) helpful_web (Some (collected_file 35))
     = Some \<lparr>df = enriched_upto 35 35,
             email_float = False,
             events = concat (replicate 10 [Search ''Acme Plumbing'',
                                            Visit ''https://www.facebook.com/acmeplumbing/''])
                    @ [Save (enriched_upto 10 35)]
                    @ concat (replicate 10 [Search ''Acme Plumbing'',
                                            Visit ''https://www.facebook.com/acmeplumbing/''])
                    @ [Save (enriched_upto 20 35)]
                    @ concat (replicate 10 [Search ''Acme Plumbing'',
                                            Visit ''https://www.facebook.com/acmeplumbing/''])
                    @ [Save (enriched_upto 30 35)]
                    @ concat (replicate 5 [Search ''Acme Plumbing'',
                                           Visit ''https://www.facebook.com/acmeplumbing/''])
                    @ [Save (enriched_upto 35 35)],
             raised = None\<rparr>
   \<and> save_points_of (process_excel_file (pandas_like True) helpful_web (Some (collected_file 35)))
     = [10, 20, 30, 35]"
proof -
  have r1: "process_excel_file (pandas_like True) offline_web (Some resumed_file)
     = Some \<lparr>df = \<lparr>columns = enriched_columns,
                    rows = replicate 9 (plain_row ''Acme Plumbing'' ''Not Available'' (Text ''NaN''))
                         @ [plain_row ''Corner Cafe'' ''Not Available'' (Text ''hello@cafe.example'')]
                         @ replicate 9 (plain_row ''Acme Plumbing'' ''Not Available'' (Text ''NaN''))
                         @ [plain_row ''Corner Cafe'' ''Not Available'' (Text ''hello@cafe.example'')]\<rparr>,
             email_float = False,
             events = replicate 18 (Search ''Acme Plumbing'')
                    @ [Save \<lparr>columns = enriched_columns,
                             rows = replicate 9 (plain_row ''Acme Plumbing'' ''Not Available'' (Text ''NaN''))
                                  @ [plain_row ''Corner Cafe'' ''Not Available'' (Text ''hello@cafe.example'')]
                                  @ replicate 9 (plain_row ''Acme Plumbing'' ''Not Available'' (Text ''NaN''))
                                  @ [plain_row ''Corner Cafe'' ''Not Available'' (Text ''hello@cafe.example'')]\<rparr>],
             raised = None\<rparr>"
    by code_simp
  have s1: "save_points_of (process_excel_file (pandas_like True) offline_web (Some resumed_file)) = [18]"
    unfolding r1 by code_simp
  have r2: "process_excel_file (pandas_like True) helpful_web (Some (collected_file 35))
     = Some \<lparr>df = enriched_upto 35 35,
             email_float = False,
             events = concat (replicate 10 [Search ''Acme Plumbing'',
                                            Visit ''https://www.facebook.com/acmeplumbing/''])
                    @ [Save (enriched_upto 10 35)]
                    @ concat (replicate 10 [Search ''Acme Plumbing'',
                                            Visit ''https://www.facebook.com/acmeplumbing/''])
                    @ [Save (enriched_upto 20 35)]
                    @ concat (replicate 10 [Search ''Acme Plumbing'',
                                            Visit ''https://www.facebook.com/acmeplumbing/''])
                    @ [Save (enriched_upto 30 35)]
                    @ concat (replicate 5 [Search ''Acme Plumbing'',
                                           Visit ''https://www.facebook.com/acmeplumbing/''])
                    @ [Save (enriched_upto 35 35)],
             raised = None\<rparr>"
    by code_simp
  have s2: "save_points_of (process_excel_file (pandas_like True) helpful_web (Some (collected_file 35)))
     = [10, 20, 30, 35]"
    unfolding r2 by code_simp
  show ?thesis by (rule conjI[OF r1 conjI[OF s1 conjI[OF r2 s2]]])
qed

section \<open>The failure artifact of the search\<close>








section \<open>The walk over the pages\<close>

















end
